theory Spec2Isabelle
  imports Complex_Main "HOL-Library.Monad_Syntax"
begin

section \<open>Data model (shared/schema.ts)\<close>

text \<open>
  The tables of the relational store, one record per row type.  Audit columns
  (createdOn, createdBy, modifiedOn, modifiedBy, description, manualComments), the
  nullable contact columns of libraries and students (taken as absent) and the display
  columns planName, shiftStart and shiftEnd of subscriptions (whose values always fit
  their columns) are not read by any operation below and are left out.

  The server computes on the amount columns with \<open>Number(...)\<close> / \<open>parseFloat(...)\<close> and
  writes \<open>String(...)\<close> of the result.  Amounts are rationals here: a request carries a
  finite number, arithmetic is exact (in place of IEEE doubles; NaN and Infinity are
  outside the model), and a write into a \<open>decimal(10, 2)\<close> column rounds and checks the
  range as the database does (\<open>decimal_10_2\<close> below).

  Columns of type \<open>serial\<close> are natural numbers handed out by a per-table counter that
  starts at 1.  Status columns are \<open>varchar\<close> and stay strings.
\<close>

type_synonym amount = rat

record library =
  lib_id :: nat
  lib_name :: string
  lib_totalSeats :: int
  lib_isActive :: bool

record shift =
  shift_id :: nat
  shift_libraryId :: nat
  shift_name :: string
  shift_startTime :: string
  shift_endTime :: string
  shift_totalHours :: int
  shift_isActive :: bool

record seat =
  seat_id :: nat
  seat_libraryId :: nat
  seat_seatNumber :: int
  seat_status :: string
  seat_isActive :: bool

record seatAllocation =
  alloc_id :: nat
  alloc_seatId :: nat
  alloc_shiftId :: nat
  alloc_studentId :: "nat option"
  alloc_status :: string
  alloc_gender :: "string option"
  alloc_isActive :: bool

record student =
  stu_id :: nat
  stu_libraryId :: nat
  stu_studentId :: string
  stu_studentName :: string
  stu_mobileNo :: string
  stu_gender :: string
  stu_status :: string
  stu_admissionDate :: string
  stu_isActive :: bool

record subscription =
  sub_id :: nat
  sub_libraryId :: nat
  sub_studentId :: nat
  sub_seatId :: nat
  sub_shiftIds :: "nat list"
  sub_totalHours :: int
  sub_planStartDate :: string
  sub_planEndDate :: string
  sub_subscriptionCost :: amount
  sub_paidAmount :: amount
  sub_discount :: amount
  sub_pendingAmount :: amount
  sub_status :: string
  sub_isActive :: bool

record payment =
  pay_id :: nat
  pay_libraryId :: nat
  pay_studentId :: nat
  pay_subscriptionId :: nat
  pay_amount :: amount
  pay_paymentDate :: string
  pay_paymentMode :: string
  pay_status :: string
  pay_isActive :: bool

text \<open>
  The database: every table is the list of its rows in insertion order, together with
  the next value of its \<open>serial\<close> sequence.
\<close>

record store =
  libraries :: "library list"
  shifts :: "shift list"
  seats :: "seat list"
  seatAllocations :: "seatAllocation list"
  students :: "student list"
  subscriptions :: "subscription list"
  payments :: "payment list"
  next_library_id :: nat
  next_shift_id :: nat
  next_seat_id :: nat
  next_alloc_id :: nat
  next_student_id :: nat
  next_subscription_id :: nat
  next_payment_id :: nat

definition empty_store :: store where
  "empty_store = \<lparr> libraries = [], shifts = [], seats = [], seatAllocations = [],
     students = [], subscriptions = [], payments = [],
     next_library_id = 1, next_shift_id = 1, next_seat_id = 1, next_alloc_id = 1,
     next_student_id = 1, next_subscription_id = 1, next_payment_id = 1 \<rparr>"

text \<open>A statement that the database rejects throws; the kind of the exception is not
  observable, since every \<open>catch\<close> block of the routes answers 500.  A route answers
  200, the 404 of the renewal route, or 500.\<close>

datatype db_error = DbError

datatype http_error = Http404 | Http500

section \<open>What the database accepts (column types and constraints of the schema)\<close>

text \<open>
  \<open>decimal(10, 2)\<close>: the value is rounded to two decimals, half away from zero, and
  rejected unless the rounded value is below \<open>10^8\<close> in absolute value.
\<close>

definition round2 :: "rat \<Rightarrow> rat" where
  "round2 x = (if 0 \<le> x then of_int \<lfloor>x * 100 + 1 / 2\<rfloor> / 100
               else - (of_int \<lfloor>- x * 100 + 1 / 2\<rfloor> / 100))"

definition decimal_10_2 :: "rat \<Rightarrow> rat option" where
  "decimal_10_2 x = (if \<bar>round2 x\<bar> < 100000000 then Some (round2 x) else None)"

text \<open>\<open>varchar(n)\<close>: a longer string is rejected, unless the excess is spaces only, which
  are cut off.  \<open>integer\<close>: 32 bits, signed.\<close>

definition varchar :: "nat \<Rightarrow> string \<Rightarrow> string option" where
  "varchar n s =
     (if length s \<le> n then Some s
      else if list_all (\<lambda>c. c = CHR '' '') (drop n s) then Some (take n s)
      else None)"

definition pg_integer :: "int \<Rightarrow> int option" where
  "pg_integer x = (if - 2147483648 \<le> x \<and> x \<le> 2147483647 then Some x else None)"

text \<open>
  \<open>date\<close>: which strings the database reads as a date is a parameter \<open>dateOk\<close> of every
  operation that writes a date (the empty string is none).  The string is kept as the
  request has it; no operation below reads a stored date.
\<close>

definition pg_date :: "(string \<Rightarrow> bool) \<Rightarrow> string \<Rightarrow> string option" where
  "pg_date dateOk s = (if dateOk s then Some s else None)"

text \<open>
  The row as the table stores it (before the serial id is attached), or \<open>None\<close> when a
  foreign key, a uniqueness constraint or a column type rejects it.
\<close>

definition libraries_row :: "library \<Rightarrow> library option" where
  "libraries_row data =
     do { name \<leftarrow> varchar 255 (lib_name data);
          totalSeats \<leftarrow> pg_integer (lib_totalSeats data);
          Some (data\<lparr>lib_name := name, lib_totalSeats := totalSeats\<rparr>) }"

definition shifts_row :: "store \<Rightarrow> shift \<Rightarrow> shift option" where
  "shifts_row st data =
     (if shift_libraryId data \<in> set (map lib_id (libraries st)) then
        do { name \<leftarrow> varchar 100 (shift_name data);
             startTime \<leftarrow> varchar 10 (shift_startTime data);
             endTime \<leftarrow> varchar 10 (shift_endTime data);
             totalHours \<leftarrow> pg_integer (shift_totalHours data);
             Some (data\<lparr>shift_name := name, shift_startTime := startTime,
                        shift_endTime := endTime, shift_totalHours := totalHours\<rparr>) }
      else None)"

definition seats_row :: "store \<Rightarrow> seat \<Rightarrow> seat option" where
  "seats_row st data =
     (if seat_libraryId data \<in> set (map lib_id (libraries st)) then
        do { seatNumber \<leftarrow> pg_integer (seat_seatNumber data);
             status \<leftarrow> varchar 50 (seat_status data);
             Some (data\<lparr>seat_seatNumber := seatNumber, seat_status := status\<rparr>) }
      else None)"

definition seat_allocations_row :: "store \<Rightarrow> seatAllocation \<Rightarrow> seatAllocation option" where
  "seat_allocations_row st data =
     (if alloc_seatId data \<in> set (map seat_id (seats st))
         \<and> alloc_shiftId data \<in> set (map shift_id (shifts st))
         \<and> (case alloc_studentId data of
               None \<Rightarrow> True
             | Some studentId \<Rightarrow> studentId \<in> set (map stu_id (students st)))
      then
        do { status \<leftarrow> varchar 50 (alloc_status data);
             gender \<leftarrow> (case alloc_gender data of
                          None \<Rightarrow> Some None
                        | Some g \<Rightarrow> map_option Some (varchar 10 g));
             Some (data\<lparr>alloc_status := status, alloc_gender := gender\<rparr>) }
      else None)"

definition students_row :: "(string \<Rightarrow> bool) \<Rightarrow> store \<Rightarrow> student \<Rightarrow> student option" where
  "students_row dateOk st data =
     (if stu_libraryId data \<in> set (map lib_id (libraries st)) then
        do { studentId \<leftarrow> varchar 20 (stu_studentId data);
             studentName \<leftarrow> varchar 255 (stu_studentName data);
             mobileNo \<leftarrow> varchar 15 (stu_mobileNo data);
             gender \<leftarrow> varchar 10 (stu_gender data);
             status \<leftarrow> varchar 50 (stu_status data);
             admissionDate \<leftarrow> pg_date dateOk (stu_admissionDate data);
             if studentId \<in> set (map stu_studentId (students st)) then None
             else Some (data\<lparr>stu_studentId := studentId, stu_studentName := studentName,
                             stu_mobileNo := mobileNo, stu_gender := gender,
                             stu_status := status, stu_admissionDate := admissionDate\<rparr>) }
      else None)"

definition subscriptions_row ::
  "(string \<Rightarrow> bool) \<Rightarrow> store \<Rightarrow> subscription \<Rightarrow> subscription option" where
  "subscriptions_row dateOk st sub =
     (if sub_libraryId sub \<in> set (map lib_id (libraries st))
         \<and> sub_studentId sub \<in> set (map stu_id (students st))
         \<and> sub_seatId sub \<in> set (map seat_id (seats st))
      then
        do { totalHours \<leftarrow> pg_integer (sub_totalHours sub);
             planStartDate \<leftarrow> pg_date dateOk (sub_planStartDate sub);
             planEndDate \<leftarrow> pg_date dateOk (sub_planEndDate sub);
             subscriptionCost \<leftarrow> decimal_10_2 (sub_subscriptionCost sub);
             paidAmount \<leftarrow> decimal_10_2 (sub_paidAmount sub);
             discount \<leftarrow> decimal_10_2 (sub_discount sub);
             pendingAmount \<leftarrow> decimal_10_2 (sub_pendingAmount sub);
             status \<leftarrow> varchar 50 (sub_status sub);
             Some (sub\<lparr>sub_totalHours := totalHours, sub_planStartDate := planStartDate,
                       sub_planEndDate := planEndDate, sub_subscriptionCost := subscriptionCost,
                       sub_paidAmount := paidAmount, sub_discount := discount,
                       sub_pendingAmount := pendingAmount, sub_status := status\<rparr>) }
      else None)"

definition payments_row :: "(string \<Rightarrow> bool) \<Rightarrow> store \<Rightarrow> payment \<Rightarrow> payment option" where
  "payments_row dateOk st payment =
     (if pay_libraryId payment \<in> set (map lib_id (libraries st))
         \<and> pay_studentId payment \<in> set (map stu_id (students st))
         \<and> pay_subscriptionId payment \<in> set (map sub_id (subscriptions st))
      then
        do { amount \<leftarrow> decimal_10_2 (pay_amount payment);
             paymentDate \<leftarrow> pg_date dateOk (pay_paymentDate payment);
             paymentMode \<leftarrow> varchar 50 (pay_paymentMode payment);
             status \<leftarrow> varchar 50 (pay_status payment);
             Some (payment\<lparr>pay_amount := amount, pay_paymentDate := paymentDate,
                           pay_paymentMode := paymentMode, pay_status := status\<rparr>) }
      else None)"

section \<open>Storage layer (DatabaseStorage)\<close>

text \<open>
  Every write returns the store it leaves and its outcome.  A rejected insert leaves
  the store as it was (a serial value it may have consumed is not modelled).  No
  operation runs in a transaction: what was written before a rejected statement stays.
\<close>

subsection \<open>Libraries, shifts and seats\<close>

definition createLibrary :: "store \<Rightarrow> library \<Rightarrow> store \<times> (db_error + library)" where
  "createLibrary st data =
     (case libraries_row data of
        None \<Rightarrow> (st, Inl DbError)
      | Some row \<Rightarrow>
          (let created = row\<lparr>lib_id := next_library_id st\<rparr>
           in (st\<lparr>libraries := libraries st @ [created],
                   next_library_id := Suc (next_library_id st)\<rparr>, Inr created)))"

text \<open>\<open>getShiftsByLibrary\<close>: the \<open>ORDER BY start_time\<close> of the query is left out; the
  only caller modelled here sums over the result.\<close>

definition getShiftsByLibrary :: "store \<Rightarrow> nat \<Rightarrow> shift list" where
  "getShiftsByLibrary st libraryId =
     filter (\<lambda>s. shift_libraryId s = libraryId \<and> shift_isActive s) (shifts st)"

definition createShift :: "store \<Rightarrow> shift \<Rightarrow> store \<times> (db_error + shift)" where
  "createShift st data =
     (case shifts_row st data of
        None \<Rightarrow> (st, Inl DbError)
      | Some row \<Rightarrow>
          (let created = row\<lparr>shift_id := next_shift_id st\<rparr>
           in (st\<lparr>shifts := shifts st @ [created],
                   next_shift_id := Suc (next_shift_id st)\<rparr>, Inr created)))"

definition getSeatsByLibrary :: "store \<Rightarrow> nat \<Rightarrow> seat list" where
  "getSeatsByLibrary st libraryId =
     sort_key seat_seatNumber
       (filter (\<lambda>s. seat_libraryId s = libraryId \<and> seat_isActive s) (seats st))"

definition createSeat :: "store \<Rightarrow> seat \<Rightarrow> store \<times> (db_error + seat)" where
  "createSeat st data =
     (case seats_row st data of
        None \<Rightarrow> (st, Inl DbError)
      | Some row \<Rightarrow>
          (let created = row\<lparr>seat_id := next_seat_id st\<rparr>
           in (st\<lparr>seats := seats st @ [created],
                   next_seat_id := Suc (next_seat_id st)\<rparr>, Inr created)))"

definition getVacantSeatsForShifts :: "store \<Rightarrow> nat \<Rightarrow> nat list \<Rightarrow> seat list" where
  "getVacantSeatsForShifts st libraryId shiftIds =
     (let allSeats = getSeatsByLibrary st libraryId;
          occupiedAllocations =
            filter (\<lambda>a. alloc_shiftId a \<in> set shiftIds \<and> alloc_status a = ''occupied''
                         \<and> alloc_isActive a) (seatAllocations st);
          occupiedSeatIds = set (map alloc_seatId occupiedAllocations)
      in filter (\<lambda>s. seat_id s \<notin> occupiedSeatIds \<and> seat_status s = ''vacant'') allSeats)"

definition createSeatAllocation ::
  "store \<Rightarrow> seatAllocation \<Rightarrow> store \<times> (db_error + seatAllocation)" where
  "createSeatAllocation st data =
     (case seat_allocations_row st data of
        None \<Rightarrow> (st, Inl DbError)
      | Some row \<Rightarrow>
          (let created = row\<lparr>alloc_id := next_alloc_id st\<rparr>
           in (st\<lparr>seatAllocations := seatAllocations st @ [created],
                   next_alloc_id := Suc (next_alloc_id st)\<rparr>, Inr created)))"

definition deleteSeatAllocationsForStudent :: "store \<Rightarrow> nat \<Rightarrow> store" where
  "deleteSeatAllocationsForStudent st studentId =
     st\<lparr>seatAllocations :=
          map (\<lambda>a. if alloc_studentId a = Some studentId then a\<lparr>alloc_isActive := False\<rparr> else a)
              (seatAllocations st)\<rparr>"

subsection \<open>Students\<close>

definition createStudent ::
  "(string \<Rightarrow> bool) \<Rightarrow> store \<Rightarrow> student \<Rightarrow> store \<times> (db_error + student)" where
  "createStudent dateOk st data =
     (case students_row dateOk st data of
        None \<Rightarrow> (st, Inl DbError)
      | Some row \<Rightarrow>
          (let created = row\<lparr>stu_id := next_student_id st\<rparr>
           in (st\<lparr>students := students st @ [created],
                   next_student_id := Suc (next_student_id st)\<rparr>, Inr created)))"

text \<open>\<open>String(n)\<close> for a non-negative integer, and \<open>padStart\<close>.\<close>

definition digit_char :: "nat \<Rightarrow> char" where
  "digit_char d = ''0123456789'' ! d"

fun string_of_nat :: "nat \<Rightarrow> string" where
  "string_of_nat n =
     (if n < 10 then [digit_char n] else string_of_nat (n div 10) @ [digit_char (n mod 10)])"

declare string_of_nat.simps [simp del]

definition padStart :: "nat \<Rightarrow> char \<Rightarrow> string \<Rightarrow> string" where
  "padStart targetLength c s = replicate (targetLength - length s) c @ s"

text \<open>\<open>generateStudentId\<close>: \<open>SELECT COALESCE(MAX(id), 0) FROM students\<close> has no
  \<open>WHERE\<close> clause; the parameter \<open>libraryId\<close> is not used by the body.\<close>

definition generateStudentId :: "store \<Rightarrow> nat \<Rightarrow> string" where
  "generateStudentId st libraryId =
     (let maxId = fold max (map stu_id (students st)) 0;
          nextId = maxId + 1
      in ''STD'' @ padStart 6 (CHR ''0'') (string_of_nat nextId))"

subsection \<open>Subscriptions\<close>

definition getSubscription :: "store \<Rightarrow> nat \<Rightarrow> subscription option" where
  "getSubscription st subId =
     (case filter (\<lambda>s. sub_id s = subId) (subscriptions st) of [] \<Rightarrow> None | sub # _ \<Rightarrow> Some sub)"

definition getActiveSubscriptionByStudent :: "store \<Rightarrow> nat \<Rightarrow> subscription option" where
  "getActiveSubscriptionByStudent st studentId =
     (case filter (\<lambda>s. sub_studentId s = studentId \<and> sub_status s = ''active'' \<and> sub_isActive s)
             (subscriptions st)
      of [] \<Rightarrow> None | sub # _ \<Rightarrow> Some sub)"

definition createSubscription ::
  "(string \<Rightarrow> bool) \<Rightarrow> store \<Rightarrow> subscription \<Rightarrow> store \<times> (db_error + subscription)" where
  "createSubscription dateOk st sub =
     (case subscriptions_row dateOk st sub of
        None \<Rightarrow> (st, Inl DbError)
      | Some row \<Rightarrow>
          (let created = row\<lparr>sub_id := next_subscription_id st\<rparr>
           in (st\<lparr>subscriptions := subscriptions st @ [created],
                   next_subscription_id := Suc (next_subscription_id st)\<rparr>, Inr created)))"

definition cancelSubscription :: "store \<Rightarrow> nat \<Rightarrow> store" where
  "cancelSubscription st subId =
     st\<lparr>subscriptions :=
          map (\<lambda>s. if sub_id s = subId then s\<lparr>sub_status := ''cancelled''\<rparr> else s)
              (subscriptions st)\<rparr>"

text \<open>\<open>renewSubscription\<close>: the \<open>UPDATE\<close> that expires the active rows of the student,
  then the insert, as two statements; when the insert is rejected the rows stay
  expired.\<close>

definition renewSubscription ::
  "(string \<Rightarrow> bool) \<Rightarrow> store \<Rightarrow> nat \<Rightarrow> subscription \<Rightarrow> store \<times> (db_error + subscription)" where
  "renewSubscription dateOk st studentId data =
     createSubscription dateOk
       (st\<lparr>subscriptions :=
             map (\<lambda>s. if sub_studentId s = studentId \<and> sub_status s = ''active''
                       then s\<lparr>sub_status := ''expired''\<rparr> else s)
                 (subscriptions st)\<rparr>)
       data"

subsection \<open>Payments\<close>

text \<open>\<open>createPayment\<close>: insert the row; then, when \<open>payment.subscriptionId\<close> is truthy
  (not 0) and the subscription is found, add the amount of the request to \<open>paidAmount\<close>
  and recompute \<open>pendingAmount\<close>, floored at 0.  The \<open>UPDATE\<close> writes two
  \<open>decimal(10, 2)\<close> columns; when it is rejected the payment row stays inserted.\<close>

definition createPayment ::
  "(string \<Rightarrow> bool) \<Rightarrow> store \<Rightarrow> payment \<Rightarrow> store \<times> (db_error + payment)" where
  "createPayment dateOk st payment =
     (case payments_row dateOk st payment of
        None \<Rightarrow> (st, Inl DbError)
      | Some row \<Rightarrow>
          (let created = row\<lparr>pay_id := next_payment_id st\<rparr>;
               st1 = st\<lparr>payments := payments st @ [created],
                        next_payment_id := Suc (next_payment_id st)\<rparr>
           in if pay_subscriptionId payment \<noteq> 0 then
                (case filter (\<lambda>s. sub_id s = pay_subscriptionId payment) (subscriptions st1) of
                   [] \<Rightarrow> (st1, Inr created)
                 | sub0 # _ \<Rightarrow>
                     (let newPaid = sub_paidAmount sub0 + pay_amount payment;
                          newPending = sub_subscriptionCost sub0 - newPaid - sub_discount sub0
                      in case (decimal_10_2 newPaid, decimal_10_2 (max 0 newPending)) of
                           (Some paidAmount, Some pendingAmount) \<Rightarrow>
                             (st1\<lparr>subscriptions :=
                                   map (\<lambda>s. if sub_id s = pay_subscriptionId payment
                                             then s\<lparr>sub_paidAmount := paidAmount,
                                                    sub_pendingAmount := pendingAmount\<rparr>
                                             else s)
                                       (subscriptions st1)\<rparr>, Inr created)
                         | _ \<Rightarrow> (st1, Inl DbError)))
              else (st1, Inr created)))"

section \<open>Route handlers (server/routes.ts)\<close>

text \<open>
  The request bodies as the client forms send them, with the amounts already parsed:
  they are the values of \<open>parseFloat(field || "0")\<close>.  A handler returns the store it
  leaves and its response: \<open>Inr\<close> the JSON body of a 200, \<open>Inl\<close> the error status.  An
  exception of a storage call is caught and answered with 500, after whatever the
  earlier statements of the handler have written.
\<close>

record registration_request =
  reg_libraryId :: nat
  reg_shiftIds :: "nat list"
  reg_seatId :: nat
  reg_planStartDate :: string
  reg_planEndDate :: string
  reg_subscriptionCost :: amount
  reg_paidAmount :: amount
  reg_discount :: amount
  reg_studentName :: string
  reg_mobileNo :: string
  reg_gender :: string
  reg_admissionDate :: string

record renewal_request =
  ren_libraryId :: nat
  ren_planStartDate :: string
  ren_planEndDate :: string
  ren_subscriptionCost :: amount
  ren_paidAmount :: amount
  ren_discount :: amount

text \<open>\<open>GET /api/seats/vacant/:libraryId\<close> (a falsy library id is 0).\<close>

definition get_api_seats_vacant :: "store \<Rightarrow> nat \<Rightarrow> nat list \<Rightarrow> (nat \<times> int) list" where
  "get_api_seats_vacant st libraryId shiftIds =
     (if libraryId = 0 \<or> length shiftIds = 0 then []
      else map (\<lambda>s. (seat_id s, seat_seatNumber s)) (getVacantSeatsForShifts st libraryId shiftIds))"

text \<open>\<open>POST /api/students\<close>: generate the student code, insert the student, derive
  the hours from the selected shifts, insert the subscription with the computed
  pending amount, and record a payment when the paid amount is positive.\<close>

definition post_api_students ::
  "(string \<Rightarrow> bool) \<Rightarrow> store \<Rightarrow> registration_request
     \<Rightarrow> store \<times> (http_error + student \<times> subscription)" where
  "post_api_students dateOk st req =
     (let libraryId = reg_libraryId req;
          shiftIds = reg_shiftIds req;
          studentId = generateStudentId st libraryId
      in case createStudent dateOk st
            \<lparr> stu_id = 0, stu_libraryId = libraryId, stu_studentId = studentId,
              stu_studentName = reg_studentName req, stu_mobileNo = reg_mobileNo req,
              stu_gender = reg_gender req, stu_status = ''active'',
              stu_admissionDate = reg_admissionDate req, stu_isActive = True \<rparr> of
           (st1, Inl e) \<Rightarrow> (st1, Inl Http500)
         | (st1, Inr student) \<Rightarrow>
             (let allShifts = getShiftsByLibrary st1 libraryId;
                  selectedShifts = filter (\<lambda>s. shift_id s \<in> set shiftIds) allShifts;
                  totalHours = foldl (\<lambda>sum s. sum + shift_totalHours s) 0 selectedShifts;
                  cost = reg_subscriptionCost req;
                  paid = reg_paidAmount req;
                  disc = reg_discount req;
                  pending = max 0 (cost - paid - disc)
              in case createSubscription dateOk st1
                    \<lparr> sub_id = 0, sub_libraryId = libraryId, sub_studentId = stu_id student,
                      sub_seatId = reg_seatId req, sub_shiftIds = shiftIds,
                      sub_totalHours = totalHours,
                      sub_planStartDate = reg_planStartDate req,
                      sub_planEndDate = reg_planEndDate req,
                      sub_subscriptionCost = cost, sub_paidAmount = paid, sub_discount = disc,
                      sub_pendingAmount = pending, sub_status = ''active'',
                      sub_isActive = True \<rparr> of
                   (st2, Inl e) \<Rightarrow> (st2, Inl Http500)
                 | (st2, Inr subscription) \<Rightarrow>
                     (if paid > 0 then
                        (case createPayment dateOk st2
                            \<lparr> pay_id = 0, pay_libraryId = libraryId,
                              pay_studentId = stu_id student,
                              pay_subscriptionId = sub_id subscription, pay_amount = paid,
                              pay_paymentDate = reg_planStartDate req,
                              pay_paymentMode = ''cash'', pay_status = ''completed'',
                              pay_isActive = True \<rparr> of
                           (st3, Inl e) \<Rightarrow> (st3, Inl Http500)
                         | (st3, Inr p) \<Rightarrow> (st3, Inr (student, subscription)))
                      else (st2, Inr (student, subscription)))))"

text \<open>\<open>POST /api/subscriptions/renew/:studentId\<close>.\<close>

definition post_api_subscriptions_renew ::
  "(string \<Rightarrow> bool) \<Rightarrow> store \<Rightarrow> nat \<Rightarrow> renewal_request
     \<Rightarrow> store \<times> (http_error + subscription)" where
  "post_api_subscriptions_renew dateOk st studentId req =
     (case getActiveSubscriptionByStudent st studentId of
        None \<Rightarrow> (st, Inl Http404)
      | Some activeSub \<Rightarrow>
          (let libraryId = ren_libraryId req;
               cost = ren_subscriptionCost req;
               paid = ren_paidAmount req;
               disc = ren_discount req;
               pending = max 0 (cost - paid - disc)
           in case renewSubscription dateOk st studentId
                 \<lparr> sub_id = 0, sub_libraryId = libraryId, sub_studentId = studentId,
                   sub_seatId = sub_seatId activeSub, sub_shiftIds = sub_shiftIds activeSub,
                   sub_totalHours = sub_totalHours activeSub,
                   sub_planStartDate = ren_planStartDate req,
                   sub_planEndDate = ren_planEndDate req,
                   sub_subscriptionCost = cost, sub_paidAmount = paid, sub_discount = disc,
                   sub_pendingAmount = pending, sub_status = ''active'',
                   sub_isActive = True \<rparr> of
                (st1, Inl e) \<Rightarrow> (st1, Inl Http500)
              | (st1, Inr subscription) \<Rightarrow>
                  (if paid > 0 then
                     (case createPayment dateOk st1
                         \<lparr> pay_id = 0, pay_libraryId = libraryId, pay_studentId = studentId,
                           pay_subscriptionId = sub_id subscription, pay_amount = paid,
                           pay_paymentDate = ren_planStartDate req,
                           pay_paymentMode = ''cash'', pay_status = ''completed'',
                           pay_isActive = True \<rparr> of
                        (st2, Inl e) \<Rightarrow> (st2, Inl Http500)
                      | (st2, Inr p) \<Rightarrow> (st2, Inr subscription))
                   else (st1, Inr subscription))))"

text \<open>\<open>PATCH /api/subscriptions/:id/cancel\<close> and \<open>POST /api/payments\<close>.\<close>

definition patch_api_subscriptions_cancel :: "store \<Rightarrow> nat \<Rightarrow> store \<times> (http_error + unit)" where
  "patch_api_subscriptions_cancel st subId = (cancelSubscription st subId, Inr ())"

definition post_api_payments ::
  "(string \<Rightarrow> bool) \<Rightarrow> store \<Rightarrow> payment \<Rightarrow> store \<times> (http_error + payment)" where
  "post_api_payments dateOk st body =
     (case createPayment dateOk st body of
        (st1, Inl e) \<Rightarrow> (st1, Inl Http500)
      | (st1, Inr payment) \<Rightarrow> (st1, Inr payment))"

section \<open>Sequences of ledger operations\<close>

text \<open>The operations that write to the store: the four mutating routes of the ledger,
  and the inserts of libraries, shifts, seats and allocations offered by the storage
  layer (libraries, shifts and seats are inserted by \<open>onboardLibrary\<close>).\<close>

datatype ledger_op =
    AddLibrary library
  | AddShift shift
  | AddSeat seat
  | AddAllocation seatAllocation
  | Register registration_request
  | AddPayment payment
  | Renew nat renewal_request
  | Cancel nat

fun apply_op :: "(string \<Rightarrow> bool) \<Rightarrow> store \<Rightarrow> ledger_op \<Rightarrow> store" where
  "apply_op dateOk st (AddLibrary data) = fst (createLibrary st data)"
| "apply_op dateOk st (AddShift data) = fst (createShift st data)"
| "apply_op dateOk st (AddSeat data) = fst (createSeat st data)"
| "apply_op dateOk st (AddAllocation data) = fst (createSeatAllocation st data)"
| "apply_op dateOk st (Register req) = fst (post_api_students dateOk st req)"
| "apply_op dateOk st (AddPayment body) = fst (post_api_payments dateOk st body)"
| "apply_op dateOk st (Renew studentId req) =
     fst (post_api_subscriptions_renew dateOk st studentId req)"
| "apply_op dateOk st (Cancel subId) = fst (patch_api_subscriptions_cancel st subId)"

definition run_ops :: "(string \<Rightarrow> bool) \<Rightarrow> ledger_op list \<Rightarrow> store" where
  "run_ops dateOk ops = foldl (apply_op dateOk) empty_store ops"

section \<open>Predicates used in the statements\<close>

text \<open>An amount of at most two decimals: a write into a \<open>decimal(10, 2)\<close> column keeps
  it as it is.\<close>

definition two_decimals :: "rat \<Rightarrow> bool" where
  "two_decimals x \<longleftrightarrow> round2 x = x"

text \<open>The pending-amount equation of a subscription row, and of every row of a store.\<close>

definition pending_ok :: "subscription \<Rightarrow> bool" where
  "pending_ok s \<longleftrightarrow>
     sub_pendingAmount s = max 0 (sub_subscriptionCost s - sub_paidAmount s - sub_discount s)"

definition ledger_inv :: "store \<Rightarrow> bool" where
  "ledger_inv st \<longleftrightarrow> list_all pending_ok (subscriptions st)"

text \<open>The amount columns of a subscription row hold values of two decimals.\<close>

definition amounts_stored :: "subscription \<Rightarrow> bool" where
  "amounts_stored s \<longleftrightarrow>
     two_decimals (sub_subscriptionCost s) \<and> two_decimals (sub_paidAmount s)
     \<and> two_decimals (sub_discount s) \<and> two_decimals (sub_pendingAmount s)"

text \<open>The discipline of the \<open>serial\<close> primary key of subscriptions: ids are distinct
  and below the next value of the sequence, which is positive.\<close>

definition serial_ok :: "store \<Rightarrow> bool" where
  "serial_ok st \<longleftrightarrow>
     0 < next_subscription_id st \<and> distinct (map sub_id (subscriptions st))
     \<and> (\<forall>k \<in> set (map sub_id (subscriptions st)). k < next_subscription_id st)"

definition inv_all :: "store \<Rightarrow> bool" where
  "inv_all st \<longleftrightarrow>
     serial_ok st \<and> ledger_inv st \<and> list_all amounts_stored (subscriptions st)"

text \<open>The amounts that an operation carries in its request have at most two decimals.\<close>

fun op_two_decimals :: "ledger_op \<Rightarrow> bool" where
  "op_two_decimals (Register req) \<longleftrightarrow>
     two_decimals (reg_subscriptionCost req) \<and> two_decimals (reg_paidAmount req)
     \<and> two_decimals (reg_discount req)"
| "op_two_decimals (AddPayment body) \<longleftrightarrow> two_decimals (pay_amount body)"
| "op_two_decimals (Renew studentId req) \<longleftrightarrow>
     two_decimals (ren_subscriptionCost req) \<and> two_decimals (ren_paidAmount req)
     \<and> two_decimals (ren_discount req)"
| "op_two_decimals (AddLibrary data) \<longleftrightarrow> True"
| "op_two_decimals (AddShift data) \<longleftrightarrow> True"
| "op_two_decimals (AddSeat data) \<longleftrightarrow> True"
| "op_two_decimals (AddAllocation data) \<longleftrightarrow> True"
| "op_two_decimals (Cancel subId) \<longleftrightarrow> True"

text \<open>The columns of a subscription that no payment touches.\<close>

definition sub_key :: "subscription \<Rightarrow> nat \<times> nat \<times> nat \<times> nat list \<times> string \<times> bool" where
  "sub_key s =
     (sub_id s, sub_studentId s, sub_seatId s, sub_shiftIds s, sub_status s, sub_isActive s)"

text \<open>Between two stores: no subscription row was dropped, and no row whose status was
  not active has status active.\<close>

definition keeps_terminal :: "store \<Rightarrow> store \<Rightarrow> bool" where
  "keeps_terminal st st' \<longleftrightarrow>
     length (subscriptions st) \<le> length (subscriptions st')
     \<and> (\<forall>i < length (subscriptions st).
           sub_status (subscriptions st ! i) \<noteq> ''active''
           \<longrightarrow> sub_status (subscriptions st' ! i) \<noteq> ''active'')"

text \<open>The availability resolver as the specification words it: the active seats of the
  library that have no active occupied allocation in any requested shift, except the
  seats marked blocked.\<close>

definition spec_vacant_seats :: "store \<Rightarrow> nat \<Rightarrow> nat list \<Rightarrow> seat list" where
  "spec_vacant_seats st libraryId shiftIds =
     filter (\<lambda>s. list_all (\<lambda>shiftId.
                      \<not> list_ex (\<lambda>a. alloc_seatId a = seat_id s \<and> alloc_shiftId a = shiftId
                                       \<and> alloc_status a = ''occupied'' \<and> alloc_isActive a)
                                 (seatAllocations st)) shiftIds
                  \<and> seat_status s \<noteq> ''blocked'')
       (getSeatsByLibrary st libraryId)"

section \<open>Example data\<close>

text \<open>The date parameter of the examples: the strings of the shape \<open>YYYY-MM-DD\<close>, which
  is what the date inputs of the client send when they are filled in.  The examples use
  it on such dates and on the empty string only.\<close>

definition is_digit :: "char \<Rightarrow> bool" where
  "is_digit c \<longleftrightarrow> c \<in> set ''0123456789''"

definition iso_date :: "string \<Rightarrow> bool" where
  "iso_date s \<longleftrightarrow>
     length s = 10 \<and> list_all is_digit (take 4 s) \<and> s ! 4 = CHR ''-''
     \<and> list_all is_digit (take 2 (drop 5 s)) \<and> s ! 7 = CHR ''-''
     \<and> list_all is_digit (drop 8 s)"

text \<open>Library 1 with the shifts Morning (id 1) and Evening (id 2) and seat number 1
  (id 1); student S registers for Morning on seat 1 with cost 1000, paid 400 and no
  discount; student T asks for the same seat and shift.\<close>

definition library_one :: library where
  "library_one = \<lparr> lib_id = 0, lib_name = ''L1'', lib_totalSeats = 1, lib_isActive = True \<rparr>"

definition morning :: shift where
  "morning = \<lparr> shift_id = 0, shift_libraryId = 1, shift_name = ''Morning'',
     shift_startTime = ''06:00'', shift_endTime = ''12:00'', shift_totalHours = 6,
     shift_isActive = True \<rparr>"

definition evening :: shift where
  "evening = \<lparr> shift_id = 0, shift_libraryId = 1, shift_name = ''Evening'',
     shift_startTime = ''18:00'', shift_endTime = ''00:00'', shift_totalHours = 6,
     shift_isActive = True \<rparr>"

definition seat_one :: seat where
  "seat_one = \<lparr> seat_id = 0, seat_libraryId = 1, seat_seatNumber = 1,
     seat_status = ''vacant'', seat_isActive = True \<rparr>"

definition seat_marked :: seat where
  "seat_marked = \<lparr> seat_id = 0, seat_libraryId = 1, seat_seatNumber = 2,
     seat_status = ''occupied'', seat_isActive = True \<rparr>"

definition library_L1 :: "ledger_op list" where
  "library_L1 = [AddLibrary library_one, AddShift morning, AddShift evening, AddSeat seat_one]"

definition reg_S :: registration_request where
  "reg_S = \<lparr> reg_libraryId = 1, reg_shiftIds = [1], reg_seatId = 1,
     reg_planStartDate = ''2024-01-01'', reg_planEndDate = ''2024-01-31'',
     reg_subscriptionCost = 1000, reg_paidAmount = 400, reg_discount = 0,
     reg_studentName = ''S'', reg_mobileNo = ''9000000001'', reg_gender = ''male'',
     reg_admissionDate = ''2024-01-01'' \<rparr>"

definition reg_T :: registration_request where
  "reg_T = \<lparr> reg_libraryId = 1, reg_shiftIds = [1], reg_seatId = 1,
     reg_planStartDate = ''2024-01-05'', reg_planEndDate = ''2024-02-04'',
     reg_subscriptionCost = 1000, reg_paidAmount = 1000, reg_discount = 0,
     reg_studentName = ''T'', reg_mobileNo = ''9000000002'', reg_gender = ''female'',
     reg_admissionDate = ''2024-01-05'' \<rparr>"

definition alloc_S :: seatAllocation where
  "alloc_S = \<lparr> alloc_id = 0, alloc_seatId = 1, alloc_shiftId = 1, alloc_studentId = Some 1,
     alloc_status = ''occupied'', alloc_gender = Some ''male'', alloc_isActive = True \<rparr>"

definition ren_S :: renewal_request where
  "ren_S = \<lparr> ren_libraryId = 1, ren_planStartDate = ''2024-02-01'',
     ren_planEndDate = ''2024-02-29'', ren_subscriptionCost = 1000, ren_paidAmount = 0,
     ren_discount = 100 \<rparr>"

definition pay_S :: payment where
  "pay_S = \<lparr> pay_id = 0, pay_libraryId = 1, pay_studentId = 1, pay_subscriptionId = 1,
     pay_amount = 150, pay_paymentDate = ''2024-01-10'', pay_paymentMode = ''upi'',
     pay_status = ''completed'', pay_isActive = True \<rparr>"

text \<open>The store after S has registered, the subscription row it then holds, and the
  store after an allocation row for S (seat 1, Morning) has been inserted as well.\<close>

definition store_S :: store where
  "store_S = run_ops iso_date (library_L1 @ [Register reg_S])"

definition sub_S :: subscription where
  "sub_S = \<lparr> sub_id = 1, sub_libraryId = 1, sub_studentId = 1, sub_seatId = 1,
     sub_shiftIds = [1], sub_totalHours = 6, sub_planStartDate = ''2024-01-01'',
     sub_planEndDate = ''2024-01-31'', sub_subscriptionCost = 1000, sub_paidAmount = 800,
     sub_discount = 0, sub_pendingAmount = 200, sub_status = ''active'',
     sub_isActive = True \<rparr>"

definition store_taken :: store where
  "store_taken = run_ops iso_date (library_L1 @ [Register reg_S, AddAllocation alloc_S])"

definition store_renewed :: store where
  "store_renewed = run_ops iso_date (library_L1 @ [Register reg_S, Renew 1 ren_S])"

definition store_cancelled :: store where
  "store_cancelled = run_ops iso_date (library_L1 @ [Register reg_S, Cancel 1])"

text \<open>A library whose only seat carries the value occupied in its own status column,
  with no allocation row; and library 1 with a second vacant seat while S holds seat 1
  in the Morning.\<close>

definition store_marked :: store where
  "store_marked = run_ops iso_date [AddLibrary library_one, AddShift morning, AddSeat seat_marked]"

definition seat_two :: seat where
  "seat_two = \<lparr> seat_id = 0, seat_libraryId = 1, seat_seatNumber = 2,
     seat_status = ''vacant'', seat_isActive = True \<rparr>"

definition store_two_seats :: store where
  "store_two_seats =
     run_ops iso_date (library_L1 @ [AddSeat seat_two, Register reg_S, AddAllocation alloc_S])"

text \<open>Requests off the beaten track: a payment of half a cent and one at the top of
  the column range for the subscription of S; a registration whose cost and paid amount
  have a third decimal; a renewal whose end date was left empty.\<close>

definition pay_half_cent :: payment where
  "pay_half_cent = \<lparr> pay_id = 0, pay_libraryId = 1, pay_studentId = 1, pay_subscriptionId = 1,
     pay_amount = 0.005, pay_paymentDate = ''2024-01-10'', pay_paymentMode = ''cash'',
     pay_status = ''completed'', pay_isActive = True \<rparr>"

definition pay_huge :: payment where
  "pay_huge = \<lparr> pay_id = 0, pay_libraryId = 1, pay_studentId = 1, pay_subscriptionId = 1,
     pay_amount = 99999999.99, pay_paymentDate = ''2024-01-10'', pay_paymentMode = ''cash'',
     pay_status = ''completed'', pay_isActive = True \<rparr>"

definition reg_third_decimal :: registration_request where
  "reg_third_decimal = \<lparr> reg_libraryId = 1, reg_shiftIds = [1], reg_seatId = 1,
     reg_planStartDate = ''2024-01-01'', reg_planEndDate = ''2024-01-31'',
     reg_subscriptionCost = 10.005, reg_paidAmount = 0.005, reg_discount = 0,
     reg_studentName = ''U'', reg_mobileNo = ''9000000003'', reg_gender = ''male'',
     reg_admissionDate = ''2024-01-01'' \<rparr>"

definition ren_no_end_date :: renewal_request where
  "ren_no_end_date = \<lparr> ren_libraryId = 1, ren_planStartDate = ''2024-02-01'',
     ren_planEndDate = [], ren_subscriptionCost = 1000, ren_paidAmount = 0,
     ren_discount = 0 \<rparr>"

text \<open>The payment row that the payment of S creates, and the subscription row that the
  renewal of S creates.\<close>

definition pay_S_created :: payment where
  "pay_S_created = pay_S\<lparr>pay_id := 2\<rparr>"

definition sub_S_renewed :: subscription where
  "sub_S_renewed = \<lparr> sub_id = 2, sub_libraryId = 1, sub_studentId = 1, sub_seatId = 1,
     sub_shiftIds = [1], sub_totalHours = 6, sub_planStartDate = ''2024-02-01'',
     sub_planEndDate = ''2024-02-29'', sub_subscriptionCost = 1000, sub_paidAmount = 0,
     sub_discount = 100, sub_pendingAmount = 900, sub_status = ''active'',
     sub_isActive = True \<rparr>"

section \<open>Properties\<close>

subsection \<open>Amounts of two decimals\<close>

lemma round2_of_int: "round2 (of_int k / 100) = of_int k / 100"
proof -
  have a: "\<lfloor>(of_int k :: rat) + 1 / 2\<rfloor> = k" by linarith
  have b: "\<lfloor>- (of_int k :: rat) + 1 / 2\<rfloor> = - k" by linarith
  show ?thesis using a b by (simp add: round2_def)
qed

lemma two_decimals_iff: "two_decimals x \<longleftrightarrow> (\<exists>k::int. x = of_int k / 100)"
proof
  assume "two_decimals x"
  then have "round2 x = x" by (simp add: two_decimals_def)
  then show "\<exists>k::int. x = of_int k / 100"
    unfolding round2_def
    by (metis (no_types) of_int_minus minus_divide_left)
next
  assume "\<exists>k::int. x = of_int k / 100"
  then obtain k :: int where "x = of_int k / 100" by blast
  then show "two_decimals x" by (simp only: two_decimals_def round2_of_int)
qed

lemma two_decimals_round2: "two_decimals (round2 x)"
  unfolding two_decimals_iff round2_def by (metis (no_types) of_int_minus minus_divide_left)

lemma two_decimals_0: "two_decimals 0"
  unfolding two_decimals_iff by (rule exI [of _ 0]) simp

lemma two_decimals_add: "two_decimals x \<Longrightarrow> two_decimals y \<Longrightarrow> two_decimals (x + y)"
  unfolding two_decimals_iff
proof (elim exE)
  fix k l :: int assume "x = of_int k / 100" "y = of_int l / 100"
  then have "x + y = of_int (k + l) / 100" by (simp add: add_divide_distrib)
  then show "\<exists>m::int. x + y = of_int m / 100" by blast
qed

lemma two_decimals_diff: "two_decimals x \<Longrightarrow> two_decimals y \<Longrightarrow> two_decimals (x - y)"
  unfolding two_decimals_iff
proof (elim exE)
  fix k l :: int assume "x = of_int k / 100" "y = of_int l / 100"
  then have "x - y = of_int (k - l) / 100" by (simp add: diff_divide_distrib)
  then show "\<exists>m::int. x - y = of_int m / 100" by blast
qed

lemma two_decimals_pending:
  "two_decimals c \<Longrightarrow> two_decimals p \<Longrightarrow> two_decimals d \<Longrightarrow> two_decimals (max 0 (c - p - d))"
  by (simp add: max_def two_decimals_0 two_decimals_diff)

lemma decimal_10_2_stored: "decimal_10_2 x = Some y \<Longrightarrow> two_decimals y"
  by (auto simp: decimal_10_2_def two_decimals_round2 split: if_splits)

lemma decimal_10_2_exact: "two_decimals x \<Longrightarrow> decimal_10_2 x = Some y \<Longrightarrow> y = x"
  by (auto simp: decimal_10_2_def two_decimals_def split: if_splits)

subsection \<open>What each write does to the subscriptions\<close>

lemma createLibrary_subscriptions [simp]:
  "subscriptions (fst (createLibrary st data)) = subscriptions st"
  "next_subscription_id (fst (createLibrary st data)) = next_subscription_id st"
  by (simp_all add: createLibrary_def Let_def split: option.splits)

lemma createShift_subscriptions [simp]:
  "subscriptions (fst (createShift st data)) = subscriptions st"
  "next_subscription_id (fst (createShift st data)) = next_subscription_id st"
  by (simp_all add: createShift_def Let_def split: option.splits)

lemma createSeat_subscriptions [simp]:
  "subscriptions (fst (createSeat st data)) = subscriptions st"
  "next_subscription_id (fst (createSeat st data)) = next_subscription_id st"
  by (simp_all add: createSeat_def Let_def split: option.splits)

lemma createSeatAllocation_subscriptions [simp]:
  "subscriptions (fst (createSeatAllocation st data)) = subscriptions st"
  "next_subscription_id (fst (createSeatAllocation st data)) = next_subscription_id st"
  by (simp_all add: createSeatAllocation_def Let_def split: option.splits)

lemma createStudent_subscriptions [simp]:
  "subscriptions (fst (createStudent dateOk st data)) = subscriptions st"
  "next_subscription_id (fst (createStudent dateOk st data)) = next_subscription_id st"
  by (simp_all add: createStudent_def Let_def split: option.splits)

lemma createSubscription_cases:
  obtains (rejected) "createSubscription dateOk st sub = (st, Inl DbError)"
  | (inserted) row where "subscriptions_row dateOk st sub = Some row"
      "createSubscription dateOk st sub =
         (st\<lparr>subscriptions := subscriptions st @ [row\<lparr>sub_id := next_subscription_id st\<rparr>],
             next_subscription_id := Suc (next_subscription_id st)\<rparr>,
          Inr (row\<lparr>sub_id := next_subscription_id st\<rparr>))"
  by (cases "subscriptions_row dateOk st sub") (simp_all add: createSubscription_def Let_def)

lemma subscriptions_row_fields:
  assumes "subscriptions_row dateOk st sub = Some row"
  shows "sub_studentId row = sub_studentId sub" "sub_seatId row = sub_seatId sub"
    "sub_shiftIds row = sub_shiftIds sub" "sub_isActive row = sub_isActive sub"
    "decimal_10_2 (sub_subscriptionCost sub) = Some (sub_subscriptionCost row)"
    "decimal_10_2 (sub_paidAmount sub) = Some (sub_paidAmount row)"
    "decimal_10_2 (sub_discount sub) = Some (sub_discount row)"
    "decimal_10_2 (sub_pendingAmount sub) = Some (sub_pendingAmount row)"
    "varchar 50 (sub_status sub) = Some (sub_status row)"
  using assms
  by (auto simp: subscriptions_row_def split: if_splits Option.bind_splits)

lemma varchar_fits: "length s \<le> n \<Longrightarrow> varchar n s = Some s"
  by (simp add: varchar_def)

lemma createPayment_subscriptions:
  "subscriptions (fst (createPayment dateOk st p)) =
     (case payments_row dateOk st p of
        None \<Rightarrow> subscriptions st
      | Some row \<Rightarrow>
          if pay_subscriptionId p \<noteq> 0 then
            (case filter (\<lambda>s. sub_id s = pay_subscriptionId p) (subscriptions st) of
               [] \<Rightarrow> subscriptions st
             | sub0 # _ \<Rightarrow>
                 (case (decimal_10_2 (sub_paidAmount sub0 + pay_amount p),
                        decimal_10_2 (max 0 (sub_subscriptionCost sub0
                                       - (sub_paidAmount sub0 + pay_amount p) - sub_discount sub0))) of
                    (Some paidAmount, Some pendingAmount) \<Rightarrow>
                      map (\<lambda>s. if sub_id s = pay_subscriptionId p
                                then s\<lparr>sub_paidAmount := paidAmount,
                                       sub_pendingAmount := pendingAmount\<rparr>
                                else s) (subscriptions st)
                  | _ \<Rightarrow> subscriptions st))
          else subscriptions st)"
  by (simp add: createPayment_def Let_def split: option.splits list.splits prod.splits)

lemma createPayment_next_subscription_id [simp]:
  "next_subscription_id (fst (createPayment dateOk st p)) = next_subscription_id st"
  by (simp add: createPayment_def Let_def split: option.splits list.splits prod.splits)

lemma createPayment_shape:
  obtains (same) "subscriptions (fst (createPayment dateOk st p)) = subscriptions st"
  | (applied) sub0 rest a b where
      "filter (\<lambda>s. sub_id s = pay_subscriptionId p) (subscriptions st) = sub0 # rest"
      "decimal_10_2 (sub_paidAmount sub0 + pay_amount p) = Some a"
      "decimal_10_2 (max 0 (sub_subscriptionCost sub0
                            - (sub_paidAmount sub0 + pay_amount p) - sub_discount sub0)) = Some b"
      "subscriptions (fst (createPayment dateOk st p)) =
         map (\<lambda>s. if sub_id s = pay_subscriptionId p
                   then s\<lparr>sub_paidAmount := a, sub_pendingAmount := b\<rparr> else s)
             (subscriptions st)"
proof (cases "payments_row dateOk st p")
  case None
  then show ?thesis by (intro same) (simp add: createPayment_subscriptions)
next
  case (Some row)
  show ?thesis
  proof (cases "pay_subscriptionId p \<noteq> 0")
    case False
    with Some show ?thesis by (intro same) (simp add: createPayment_subscriptions)
  next
    case True
    show ?thesis
    proof (cases "filter (\<lambda>s. sub_id s = pay_subscriptionId p) (subscriptions st)")
      case Nil
      with Some True show ?thesis by (intro same) (simp add: createPayment_subscriptions)
    next
      case (Cons sub0 rest)
      show ?thesis
      proof (cases "decimal_10_2 (sub_paidAmount sub0 + pay_amount p)")
        case None
        with Some True Cons show ?thesis
          by (intro same) (simp add: createPayment_subscriptions)
      next
        case a: (Some a)
        show ?thesis
        proof (cases "decimal_10_2 (max 0 (sub_subscriptionCost sub0
                            - (sub_paidAmount sub0 + pay_amount p) - sub_discount sub0))")
          case None
          with Some True Cons a show ?thesis
            by (intro same) (simp add: createPayment_subscriptions)
        next
          case b: (Some b)
          from Some True Cons a b show ?thesis
            by (intro applied [OF Cons a b]) (simp add: createPayment_subscriptions)
        qed
      qed
    qed
  qed
qed

lemma createPayment_keeps_keys:
  "\<exists>h. (\<forall>s. sub_key (h s) = sub_key s) \<and>
       subscriptions (fst (createPayment dateOk st p)) = map h (subscriptions st)"
proof (cases rule: createPayment_shape [of dateOk st p])
  case same
  show ?thesis
  proof (intro exI conjI)
    show "\<forall>s. sub_key ((\<lambda>s. s) s) = sub_key s" by simp
    show "subscriptions (fst (createPayment dateOk st p)) = map (\<lambda>s. s) (subscriptions st)"
      using same by simp
  qed
next
  case (applied sub0 rest a b)
  show ?thesis
  proof (intro exI conjI)
    show "\<forall>s. sub_key ((\<lambda>s. if sub_id s = pay_subscriptionId p
               then s\<lparr>sub_paidAmount := a, sub_pendingAmount := b\<rparr> else s) s) = sub_key s"
      by (simp add: sub_key_def)
    show "subscriptions (fst (createPayment dateOk st p)) =
         map (\<lambda>s. if sub_id s = pay_subscriptionId p
                   then s\<lparr>sub_paidAmount := a, sub_pendingAmount := b\<rparr> else s)
             (subscriptions st)" by (rule applied(4))
  qed
qed

subsection \<open>Payment application\<close>

lemma filter_sub_id_map:
  assumes "\<And>s. sub_id (f s) = sub_id s"
  shows "filter (\<lambda>s. sub_id s = k) (map f xs) = map f (filter (\<lambda>s. sub_id s = k) xs)"
  using assms by (induction xs) simp_all

lemma payments_row_fields:
  assumes "payments_row dateOk st payment = Some row"
  shows "pay_subscriptionId row = pay_subscriptionId payment"
    "decimal_10_2 (pay_amount payment) = Some (pay_amount row)"
  using assms
  by (auto simp: payments_row_def split: if_splits Option.bind_splits)

text \<open>
  Claim C2 fails as stated.  The subscription of S has paid 800 of 1000.  A payment of
  0.005 is recorded as 0.01 and leaves \<open>paidAmount = 800.01\<close>, not 800.005: each
  \<open>decimal(10, 2)\<close> column rounds what is written into it.  A payment of 99999999.99
  is inserted, the update of the subscription is rejected (the new paid amount does
  not fit the column), and \<open>paidAmount\<close> stays 800.
\<close>

theorem createPayment_rounds_and_overflows:
  "getSubscription store_S 1 = Some sub_S
   \<and> snd (createPayment iso_date store_S pay_half_cent) = Inr (pay_half_cent\<lparr>pay_id := 2, pay_amount := 0.01\<rparr>)
   \<and> map (\<lambda>s. (sub_paidAmount s, sub_pendingAmount s))
        (subscriptions (fst (createPayment iso_date store_S pay_half_cent))) = [(800.01, 200)]
   \<and> sub_paidAmount sub_S + pay_amount pay_half_cent = 800.005
   \<and> snd (createPayment iso_date store_S pay_huge) = Inl DbError
   \<and> map pay_amount (payments (fst (createPayment iso_date store_S pay_huge))) = [400, 99999999.99]
   \<and> map (\<lambda>s. (sub_paidAmount s, sub_pendingAmount s))
        (subscriptions (fst (createPayment iso_date store_S pay_huge))) = [(800, 200)]"
  by code_simp

text \<open>
  Claim C2, amended.  For a subscription that exists under the (serial, hence positive)
  id carried by the payment, with paid amount X, cost C and discount D as the columns
  hold them, and an amount P of at most two decimals: when the database accepts the
  statements of \<open>createPayment\<close> (it returns the created row), the subscription is
  left with \<open>paidAmount = X + P\<close> and \<open>pendingAmount = max 0 (C - (X + P) - D)\<close>, which
  is not negative, no other column of it changes, and one payment row is appended,
  which records the amount P.
\<close>

theorem createPayment_applies_amount:
  assumes found: "getSubscription st subId = Some sub"
    and serial: "0 < subId"
    and carries: "pay_subscriptionId payment = subId"
    and stored: "amounts_stored sub"
    and cents: "two_decimals (pay_amount payment)"
    and accepted: "snd (createPayment dateOk st payment) = Inr created"
  shows "getSubscription (fst (createPayment dateOk st payment)) subId =
           Some (sub\<lparr>sub_paidAmount := sub_paidAmount sub + pay_amount payment,
                     sub_pendingAmount :=
                       max 0 (sub_subscriptionCost sub - (sub_paidAmount sub + pay_amount payment)
                              - sub_discount sub)\<rparr>)
         \<and> 0 \<le> sub_pendingAmount (the (getSubscription (fst (createPayment dateOk st payment)) subId))
         \<and> payments (fst (createPayment dateOk st payment)) = payments st @ [created]
         \<and> pay_amount created = pay_amount payment
         \<and> pay_subscriptionId created = subId"
proof -
  let ?paid = "sub_paidAmount sub + pay_amount payment"
  let ?pending = "max 0 (sub_subscriptionCost sub - ?paid - sub_discount sub)"
  from found obtain rest where hit: "filter (\<lambda>s. sub_id s = subId) (subscriptions st) = sub # rest"
    by (auto simp: getSubscription_def split: list.splits)
  then have "sub \<in> set (filter (\<lambda>s. sub_id s = subId) (subscriptions st))" by simp
  then have sid: "sub_id sub = subId" by simp
  from accepted obtain row where row: "payments_row dateOk st payment = Some row"
    by (cases "payments_row dateOk st payment") (simp_all add: createPayment_def)
  from accepted row hit serial carries obtain a where a: "decimal_10_2 ?paid = Some a"
    by (cases "decimal_10_2 ?paid") (simp_all add: createPayment_def Let_def)
  from accepted row hit serial carries a obtain b where b: "decimal_10_2 ?pending = Some b"
    by (cases "decimal_10_2 ?pending") (simp_all add: createPayment_def Let_def)
  have "two_decimals ?paid" using stored cents by (simp add: amounts_stored_def two_decimals_add)
  then have a': "a = ?paid" using a by (rule decimal_10_2_exact)
  have "two_decimals ?pending"
    using stored cents by (simp add: amounts_stored_def two_decimals_pending two_decimals_add)
  then have b': "b = ?pending" using b by (rule decimal_10_2_exact)
  have res: "createPayment dateOk st payment =
      (st\<lparr>payments := payments st @ [row\<lparr>pay_id := next_payment_id st\<rparr>],
          next_payment_id := Suc (next_payment_id st),
          subscriptions :=
            map (\<lambda>s. if sub_id s = subId
                      then s\<lparr>sub_paidAmount := ?paid, sub_pendingAmount := ?pending\<rparr> else s)
                (subscriptions st)\<rparr>,
       Inr (row\<lparr>pay_id := next_payment_id st\<rparr>))"
    using row hit serial carries a b a' b' by (simp add: createPayment_def Let_def)
  from res accepted have created: "created = row\<lparr>pay_id := next_payment_id st\<rparr>" by simp
  have amount: "pay_amount row = pay_amount payment"
    using decimal_10_2_exact [OF cents payments_row_fields(2) [OF row]] .
  show ?thesis
    using hit sid created amount payments_row_fields(1) [OF row] carries
    by (simp add: res getSubscription_def filter_sub_id_map)
qed

theorem createPayment_applies_amount_witness:
  "getSubscription store_S 1 = Some sub_S \<and> (0::nat) < 1 \<and> pay_subscriptionId pay_S = 1
   \<and> amounts_stored sub_S \<and> two_decimals (pay_amount pay_S)
   \<and> snd (createPayment iso_date store_S pay_S) = Inr pay_S_created
   \<and> getSubscription (fst (createPayment iso_date store_S pay_S)) 1 =
       Some (sub_S\<lparr>sub_paidAmount := 950, sub_pendingAmount := 50\<rparr>)
   \<and> payments (fst (createPayment iso_date store_S pay_S)) = payments store_S @ [pay_S_created]
   \<and> pay_amount pay_S_created = 150"
proof -
  have a: "getSubscription store_S 1 = Some sub_S" by code_simp
  have b: "pay_subscriptionId pay_S = 1" by (simp add: pay_S_def)
  have c: "(0::nat) < 1" by simp
  have d: "amounts_stored sub_S" by code_simp
  have e: "two_decimals (pay_amount pay_S)" by code_simp
  have f: "snd (createPayment iso_date store_S pay_S) = Inr pay_S_created" by code_simp
  note t = createPayment_applies_amount [OF a c b d e f]
  from t have g: "getSubscription (fst (createPayment iso_date store_S pay_S)) 1 =
       Some (sub_S\<lparr>sub_paidAmount := 950, sub_pendingAmount := 50\<rparr>)"
    by (simp add: sub_S_def pay_S_def)
  from t have h: "payments (fst (createPayment iso_date store_S pay_S))
      = payments store_S @ [pay_S_created]" by (elim conjE)
  from t have i: "pay_amount pay_S_created = 150" by (simp add: pay_S_def)
  from a c b d e f g h i show ?thesis by (intro conjI)
qed

subsection \<open>The pending-amount invariant\<close>

lemma createPayment_sub_ids [simp]:
  "map sub_id (subscriptions (fst (createPayment dateOk st p))) = map sub_id (subscriptions st)"
proof -
  from createPayment_keeps_keys [of dateOk st p] obtain h where
    h: "\<forall>s. sub_key (h s) = sub_key s"
    and subs: "subscriptions (fst (createPayment dateOk st p)) = map h (subscriptions st)"
    by blast
  have "sub_id (h s) = sub_id s" for s using h [rule_format, of s] by (simp add: sub_key_def)
  then show ?thesis by (simp add: subs)
qed

lemma first_hit_unique:
  assumes "distinct (map sub_id xs)" and "filter (\<lambda>s. sub_id s = k) xs = x # rest"
    and "s \<in> set xs" and "sub_id s = k"
  shows "s = x"
proof -
  have "x \<in> set (filter (\<lambda>s. sub_id s = k) xs)" using assms(2) by simp
  then have "x \<in> set xs" "sub_id x = k" by simp_all
  moreover have "inj_on sub_id (set xs)" using assms(1) by (simp add: distinct_map)
  ultimately show ?thesis using assms(3,4) by (auto dest: inj_onD)
qed

lemma createPayment_serial_ok:
  "serial_ok st \<Longrightarrow> serial_ok (fst (createPayment dateOk st p))"
  unfolding serial_ok_def by simp

lemma createPayment_inv_all:
  assumes inv: "inv_all st" and amt: "two_decimals (pay_amount p)"
  shows "inv_all (fst (createPayment dateOk st p))"
proof (cases rule: createPayment_shape [of dateOk st p])
  case same
  with inv show ?thesis
    by (simp add: inv_all_def createPayment_serial_ok ledger_inv_def)
next
  case (applied sub0 rest a b)
  have d: "distinct (map sub_id (subscriptions st))" using inv by (simp add: inv_all_def serial_ok_def)
  have "sub0 \<in> set (filter (\<lambda>s. sub_id s = pay_subscriptionId p) (subscriptions st))"
    using applied(1) by simp
  then have in0: "sub0 \<in> set (subscriptions st)" by simp
  with inv have st0: "amounts_stored sub0"
    by (simp add: inv_all_def list_all_iff)
  then have "two_decimals (sub_paidAmount sub0 + pay_amount p)"
    using amt by (simp add: amounts_stored_def two_decimals_add)
  then have a: "a = sub_paidAmount sub0 + pay_amount p"
    using applied(2) by (rule decimal_10_2_exact)
  have "two_decimals (max 0 (sub_subscriptionCost sub0
                            - (sub_paidAmount sub0 + pay_amount p) - sub_discount sub0))"
    using st0 amt by (simp add: amounts_stored_def two_decimals_pending two_decimals_add)
  then have b: "b = max 0 (sub_subscriptionCost sub0
                            - (sub_paidAmount sub0 + pay_amount p) - sub_discount sub0)"
    using applied(3) by (rule decimal_10_2_exact)
  have uniq: "s = sub0" if "s \<in> set (subscriptions st)" "sub_id s = pay_subscriptionId p" for s
    using first_hit_unique [OF d applied(1) that] .
  have ok: "pending_ok (sub0\<lparr>sub_paidAmount := a, sub_pendingAmount := b\<rparr>)"
    by (simp add: pending_ok_def a b)
  have stored: "amounts_stored (sub0\<lparr>sub_paidAmount := a, sub_pendingAmount := b\<rparr>)"
    using st0 decimal_10_2_stored [OF applied(2)] decimal_10_2_stored [OF applied(3)]
    by (simp add: amounts_stored_def)
  have "pending_ok s' \<and> amounts_stored s'"
    if "s' \<in> set (subscriptions (fst (createPayment dateOk st p)))" for s'
  proof -
    from that obtain s where s: "s \<in> set (subscriptions st)"
      and s': "s' = (if sub_id s = pay_subscriptionId p
                     then s\<lparr>sub_paidAmount := a, sub_pendingAmount := b\<rparr> else s)"
      unfolding applied(4) by auto
    show ?thesis
    proof (cases "sub_id s = pay_subscriptionId p")
      case True
      with uniq [OF s] s' ok stored show ?thesis by simp
    next
      case False
      with s s' inv show ?thesis by (simp add: inv_all_def ledger_inv_def list_all_iff)
    qed
  qed
  with inv show ?thesis
    by (simp add: inv_all_def createPayment_serial_ok ledger_inv_def list_all_iff)
qed

lemma createSubscription_inv_all:
  assumes inv: "inv_all st" and ok: "pending_ok data"
    and amt: "two_decimals (sub_subscriptionCost data)" "two_decimals (sub_paidAmount data)"
      "two_decimals (sub_discount data)"
  shows "inv_all (fst (createSubscription dateOk st data))"
proof (cases rule: createSubscription_cases [of dateOk st data])
  case rejected
  with inv show ?thesis by simp
next
  case (inserted row)
  note f = subscriptions_row_fields [OF inserted(1)]
  have p: "two_decimals (sub_pendingAmount data)"
    using ok amt by (simp add: pending_ok_def two_decimals_pending)
  have eq: "sub_subscriptionCost row = sub_subscriptionCost data"
    "sub_paidAmount row = sub_paidAmount data" "sub_discount row = sub_discount data"
    "sub_pendingAmount row = sub_pendingAmount data"
    using decimal_10_2_exact [OF amt(1) f(5)] decimal_10_2_exact [OF amt(2) f(6)]
      decimal_10_2_exact [OF amt(3) f(7)] decimal_10_2_exact [OF p f(8)] by simp_all
  have "pending_ok (row\<lparr>sub_id := next_subscription_id st\<rparr>)"
    using ok by (simp add: pending_ok_def eq)
  moreover have "amounts_stored (row\<lparr>sub_id := next_subscription_id st\<rparr>)"
    using amt p by (simp add: amounts_stored_def eq)
  ultimately show ?thesis using inv
    by (auto simp: inserted(2) inv_all_def serial_ok_def ledger_inv_def less_Suc_eq)
qed

lemma status_update_inv_all:
  assumes "inv_all st"
  shows "inv_all (st\<lparr>subscriptions :=
            map (\<lambda>s. if P s then s\<lparr>sub_status := v\<rparr> else s) (subscriptions st)\<rparr>)"
proof -
  have "sub_id \<circ> (\<lambda>s. if P s then s\<lparr>sub_status := v\<rparr> else s) = sub_id"
    by (auto simp: fun_eq_iff)
  then show ?thesis using assms
    by (auto simp: inv_all_def serial_ok_def ledger_inv_def list_all_iff pending_ok_def
        amounts_stored_def)
qed

lemma inv_all_same:
  "inv_all st \<Longrightarrow> subscriptions st' = subscriptions st
     \<Longrightarrow> next_subscription_id st' = next_subscription_id st \<Longrightarrow> inv_all st'"
  by (simp add: inv_all_def serial_ok_def ledger_inv_def)

lemma cancelSubscription_inv_all: "inv_all st \<Longrightarrow> inv_all (cancelSubscription st subId)"
  unfolding cancelSubscription_def by (rule status_update_inv_all)

lemma renewSubscription_inv_all:
  "inv_all st \<Longrightarrow> pending_ok data \<Longrightarrow> two_decimals (sub_subscriptionCost data)
     \<Longrightarrow> two_decimals (sub_paidAmount data) \<Longrightarrow> two_decimals (sub_discount data)
     \<Longrightarrow> inv_all (fst (renewSubscription dateOk st studentId data))"
  unfolding renewSubscription_def
  by (rule createSubscription_inv_all) (simp_all add: status_update_inv_all)

lemma post_api_students_preserves:
  assumes start: "Q st"
    and student: "\<And>st data. Q st \<Longrightarrow> Q (fst (createStudent dateOk st data))"
    and subscription: "\<And>st data. Q st
        \<Longrightarrow> sub_subscriptionCost data = reg_subscriptionCost req
        \<Longrightarrow> sub_paidAmount data = reg_paidAmount req
        \<Longrightarrow> sub_discount data = reg_discount req
        \<Longrightarrow> sub_pendingAmount data
              = max 0 (reg_subscriptionCost req - reg_paidAmount req - reg_discount req)
        \<Longrightarrow> Q (fst (createSubscription dateOk st data))"
    and payment: "\<And>st p. Q st \<Longrightarrow> pay_amount p = reg_paidAmount req
        \<Longrightarrow> Q (fst (createPayment dateOk st p))"
  shows "Q (fst (post_api_students dateOk st req))"
proof -
  let ?data = "\<lparr> stu_id = 0, stu_libraryId = reg_libraryId req,
              stu_studentId = generateStudentId st (reg_libraryId req),
              stu_studentName = reg_studentName req, stu_mobileNo = reg_mobileNo req,
              stu_gender = reg_gender req, stu_status = ''active'',
              stu_admissionDate = reg_admissionDate req, stu_isActive = True \<rparr>"
  obtain st1 r1 where c1: "createStudent dateOk st ?data = (st1, r1)" by fastforce
  have q1: "Q st1" using student [OF start, of ?data] c1 by simp
  show ?thesis
  proof (cases r1)
    case (Inl e)
    with c1 q1 show ?thesis by (simp add: post_api_students_def Let_def)
  next
    case (Inr created)
    let ?sub = "\<lparr> sub_id = 0, sub_libraryId = reg_libraryId req, sub_studentId = stu_id created,
        sub_seatId = reg_seatId req, sub_shiftIds = reg_shiftIds req,
        sub_totalHours = foldl (\<lambda>sum s. sum + shift_totalHours s) 0
          (filter (\<lambda>s. shift_id s \<in> set (reg_shiftIds req))
             (getShiftsByLibrary st1 (reg_libraryId req))),
        sub_planStartDate = reg_planStartDate req, sub_planEndDate = reg_planEndDate req,
        sub_subscriptionCost = reg_subscriptionCost req, sub_paidAmount = reg_paidAmount req,
        sub_discount = reg_discount req,
        sub_pendingAmount
          = max 0 (reg_subscriptionCost req - reg_paidAmount req - reg_discount req),
        sub_status = ''active'', sub_isActive = True \<rparr>"
    obtain st2 r2 where c2: "createSubscription dateOk st1 ?sub = (st2, r2)" by fastforce
    have q2: "Q st2" using subscription [OF q1, of ?sub] c2 by simp
    show ?thesis
    proof (cases r2)
      case (Inl e)
      with c1 Inr c2 q2 show ?thesis by (simp add: post_api_students_def Let_def)
    next
      case sub: (Inr subscription)
      let ?p = "\<lparr> pay_id = 0, pay_libraryId = reg_libraryId req, pay_studentId = stu_id created,
          pay_subscriptionId = sub_id subscription, pay_amount = reg_paidAmount req,
          pay_paymentDate = reg_planStartDate req, pay_paymentMode = ''cash'',
          pay_status = ''completed'', pay_isActive = True \<rparr>"
      obtain st3 r3 where c3: "createPayment dateOk st2 ?p = (st3, r3)" by fastforce
      have q3: "Q st3" using payment [OF q2, of ?p] c3 by simp
      from c1 Inr c2 sub c3 q2 q3 show ?thesis
        by (cases r3) (simp_all add: post_api_students_def Let_def)
    qed
  qed
qed

lemma post_api_subscriptions_renew_preserves:
  assumes start: "Q st"
    and renew: "\<And>data. sub_subscriptionCost data = ren_subscriptionCost req
        \<Longrightarrow> sub_paidAmount data = ren_paidAmount req
        \<Longrightarrow> sub_discount data = ren_discount req
        \<Longrightarrow> sub_pendingAmount data
              = max 0 (ren_subscriptionCost req - ren_paidAmount req - ren_discount req)
        \<Longrightarrow> Q (fst (renewSubscription dateOk st studentId data))"
    and payment: "\<And>st p. Q st \<Longrightarrow> pay_amount p = ren_paidAmount req
        \<Longrightarrow> Q (fst (createPayment dateOk st p))"
  shows "Q (fst (post_api_subscriptions_renew dateOk st studentId req))"
proof (cases "getActiveSubscriptionByStudent st studentId")
  case None
  with start show ?thesis by (simp add: post_api_subscriptions_renew_def)
next
  case (Some activeSub)
  let ?sub = "\<lparr> sub_id = 0, sub_libraryId = ren_libraryId req, sub_studentId = studentId,
      sub_seatId = sub_seatId activeSub, sub_shiftIds = sub_shiftIds activeSub,
      sub_totalHours = sub_totalHours activeSub,
      sub_planStartDate = ren_planStartDate req, sub_planEndDate = ren_planEndDate req,
      sub_subscriptionCost = ren_subscriptionCost req, sub_paidAmount = ren_paidAmount req,
      sub_discount = ren_discount req,
      sub_pendingAmount
        = max 0 (ren_subscriptionCost req - ren_paidAmount req - ren_discount req),
      sub_status = ''active'', sub_isActive = True \<rparr>"
  obtain st1 r1 where c1: "renewSubscription dateOk st studentId ?sub = (st1, r1)" by fastforce
  have q1: "Q st1" using renew [of ?sub] c1 by simp
  show ?thesis
  proof (cases r1)
    case (Inl e)
    with Some c1 q1 show ?thesis by (simp add: post_api_subscriptions_renew_def Let_def)
  next
    case (Inr subscription)
    let ?p = "\<lparr> pay_id = 0, pay_libraryId = ren_libraryId req, pay_studentId = studentId,
        pay_subscriptionId = sub_id subscription, pay_amount = ren_paidAmount req,
        pay_paymentDate = ren_planStartDate req, pay_paymentMode = ''cash'',
        pay_status = ''completed'', pay_isActive = True \<rparr>"
    obtain st2 r2 where c2: "createPayment dateOk st1 ?p = (st2, r2)" by fastforce
    have q2: "Q st2" using payment [OF q1, of ?p] c2 by simp
    from Some c1 Inr c2 q1 q2 show ?thesis
      by (cases r2) (simp_all add: post_api_subscriptions_renew_def Let_def)
  qed
qed

lemma post_api_payments_fst:
  "fst (post_api_payments dateOk st body) = fst (createPayment dateOk st body)"
  by (simp add: post_api_payments_def split: prod.splits sum.splits)

lemma post_api_students_inv_all:
  assumes "inv_all st" and "op_two_decimals (Register req)"
  shows "inv_all (fst (post_api_students dateOk st req))"
proof (rule post_api_students_preserves [where Q = inv_all, OF assms(1)])
  show "inv_all (fst (createStudent dateOk st data))" if "inv_all st" for st data
    by (rule inv_all_same [OF that]) simp_all
  show "inv_all (fst (createSubscription dateOk st data))"
    if "inv_all st" "sub_subscriptionCost data = reg_subscriptionCost req"
      "sub_paidAmount data = reg_paidAmount req" "sub_discount data = reg_discount req"
      "sub_pendingAmount data
         = max 0 (reg_subscriptionCost req - reg_paidAmount req - reg_discount req)"
    for st data
    using that assms(2) by (intro createSubscription_inv_all) (simp_all add: pending_ok_def)
  show "inv_all (fst (createPayment dateOk st p))"
    if "inv_all st" "pay_amount p = reg_paidAmount req" for st p
    using that assms(2) by (intro createPayment_inv_all) simp_all
qed

lemma post_api_subscriptions_renew_inv_all:
  assumes "inv_all st" and "op_two_decimals (Renew studentId req)"
  shows "inv_all (fst (post_api_subscriptions_renew dateOk st studentId req))"
proof (rule post_api_subscriptions_renew_preserves [where Q = inv_all, OF assms(1)])
  show "inv_all (fst (renewSubscription dateOk st studentId data))"
    if "sub_subscriptionCost data = ren_subscriptionCost req"
      "sub_paidAmount data = ren_paidAmount req" "sub_discount data = ren_discount req"
      "sub_pendingAmount data
         = max 0 (ren_subscriptionCost req - ren_paidAmount req - ren_discount req)"
    for data
    using that assms by (intro renewSubscription_inv_all) (simp_all add: pending_ok_def)
  show "inv_all (fst (createPayment dateOk st p))"
    if "inv_all st" "pay_amount p = ren_paidAmount req" for st p
    using that assms(2) by (intro createPayment_inv_all) simp_all
qed

lemma apply_op_inv_all:
  "inv_all st \<Longrightarrow> op_two_decimals op \<Longrightarrow> inv_all (apply_op dateOk st op)"
proof (cases op)
  case (AddLibrary x)
  assume "inv_all st" then show ?thesis unfolding AddLibrary by (simp add: inv_all_same)
next
  case (AddShift x)
  assume "inv_all st" then show ?thesis unfolding AddShift by (simp add: inv_all_same)
next
  case (AddSeat x)
  assume "inv_all st" then show ?thesis unfolding AddSeat by (simp add: inv_all_same)
next
  case (AddAllocation x)
  assume "inv_all st" then show ?thesis unfolding AddAllocation by (simp add: inv_all_same)
next
  case (Register x)
  assume "inv_all st" "op_two_decimals op"
  then show ?thesis unfolding Register by (simp add: post_api_students_inv_all)
next
  case (AddPayment x)
  assume "inv_all st" "op_two_decimals op"
  then show ?thesis unfolding AddPayment
    by (simp add: post_api_payments_fst createPayment_inv_all)
next
  case (Renew x y)
  assume "inv_all st" "op_two_decimals op"
  then show ?thesis unfolding Renew by (simp add: post_api_subscriptions_renew_inv_all)
next
  case (Cancel x)
  assume "inv_all st"
  then show ?thesis unfolding Cancel
    by (simp add: patch_api_subscriptions_cancel_def cancelSubscription_inv_all)
qed

lemma foldl_apply_op_inv_all:
  "inv_all st \<Longrightarrow> list_all op_two_decimals ops \<Longrightarrow> inv_all (foldl (apply_op dateOk) st ops)"
  by (induction ops arbitrary: st) (simp_all add: apply_op_inv_all)

lemma empty_store_inv_all: "inv_all empty_store"
  by (simp add: inv_all_def serial_ok_def ledger_inv_def empty_store_def)

text \<open>
  Claim C3 fails as stated.  One registration with cost 10.005, paid 0.005 and no
  discount is answered 200 and leaves the row (cost 10.01, paid 0.02, discount 0,
  pending 10.00): every amount column is rounded on its own, and
  \<open>10.01 - 0.02 \<noteq> 10.00\<close>.
\<close>

theorem registration_third_decimal_breaks_pending:
  "snd (post_api_students iso_date (run_ops iso_date library_L1) reg_third_decimal) \<noteq> Inl Http500
   \<and> map (\<lambda>s. (sub_subscriptionCost s, sub_paidAmount s, sub_discount s, sub_pendingAmount s))
        (subscriptions (run_ops iso_date (library_L1 @ [Register reg_third_decimal])))
       = [(10.01, 0.02, 0, 10)]
   \<and> \<not> list_all pending_ok (subscriptions (run_ops iso_date (library_L1 @ [Register reg_third_decimal])))"
  by code_simp

text \<open>
  Claim C3, amended.  In every store reached from the empty store by a sequence of
  ledger operations (registration, payment, renewal, cancellation; inserts of
  libraries, shifts, seats and allocations) whose requests carry amounts of at most two
  decimals, every subscription row satisfies
  \<open>pendingAmount = max 0 (subscriptionCost - paidAmount - discount)\<close>, whichever
  statements the database rejects on the way.  The server has no closure route, so
  closure is not among the operations.
\<close>

theorem pending_invariant_two_decimals:
  assumes "list_all op_two_decimals ops"
  shows "\<forall>s \<in> set (subscriptions (run_ops dateOk ops)).
     sub_pendingAmount s = max 0 (sub_subscriptionCost s - sub_paidAmount s - sub_discount s)"
proof -
  have "inv_all (run_ops dateOk ops)"
    unfolding run_ops_def using empty_store_inv_all assms by (rule foldl_apply_op_inv_all)
  then show ?thesis by (simp add: inv_all_def ledger_inv_def list_all_iff pending_ok_def)
qed

theorem pending_invariant_two_decimals_witness:
  "list_all op_two_decimals (library_L1 @ [Register reg_S, Renew 1 ren_S])
   \<and> map sub_id (subscriptions store_renewed) = [1, 2]
   \<and> list_all pending_ok (subscriptions store_renewed)"
proof -
  have a: "list_all op_two_decimals (library_L1 @ [Register reg_S, Renew 1 ren_S])" by code_simp
  have b: "map sub_id (subscriptions store_renewed) = [1, 2]" by code_simp
  from pending_invariant_two_decimals [OF a, of iso_date]
  have c: "list_all pending_ok (subscriptions store_renewed)"
    by (simp add: list_all_iff pending_ok_def store_renewed_def)
  from a b c show ?thesis by (intro conjI)
qed

subsection \<open>Renewal\<close>

lemma payments_row_seatAllocations_update [simp]:
  "payments_row dateOk (st\<lparr>seatAllocations := a\<rparr>) p = payments_row dateOk st p"
  by (simp add: payments_row_def)

lemma subscriptions_row_seatAllocations_update [simp]:
  "subscriptions_row dateOk (st\<lparr>seatAllocations := a\<rparr>) sub = subscriptions_row dateOk st sub"
  by (simp add: subscriptions_row_def)

lemma subscriptions_row_subscriptions_update [simp]:
  "subscriptions_row dateOk (st\<lparr>subscriptions := x\<rparr>) sub = subscriptions_row dateOk st sub"
  by (simp add: subscriptions_row_def)

lemma createPayment_seatAllocations_update:
  "createPayment dateOk (st\<lparr>seatAllocations := a\<rparr>) p =
     (fst (createPayment dateOk st p)\<lparr>seatAllocations := a\<rparr>, snd (createPayment dateOk st p))"
  by (simp add: createPayment_def Let_def split: option.splits list.splits prod.splits)

lemma renewSubscription_seatAllocations_update:
  "renewSubscription dateOk (st\<lparr>seatAllocations := a\<rparr>) studentId data =
     (fst (renewSubscription dateOk st studentId data)\<lparr>seatAllocations := a\<rparr>,
      snd (renewSubscription dateOk st studentId data))"
  by (simp add: renewSubscription_def createSubscription_def Let_def split: option.splits)

lemma getActiveSubscriptionByStudent_seatAllocations_update:
  "getActiveSubscriptionByStudent (st\<lparr>seatAllocations := a\<rparr>) studentId =
     getActiveSubscriptionByStudent st studentId"
  by (simp add: getActiveSubscriptionByStudent_def)

lemma renew_ignores_allocations:
  "post_api_subscriptions_renew dateOk (st\<lparr>seatAllocations := a\<rparr>) studentId req =
     (fst (post_api_subscriptions_renew dateOk st studentId req)\<lparr>seatAllocations := a\<rparr>,
      snd (post_api_subscriptions_renew dateOk st studentId req))"
  by (simp add: post_api_subscriptions_renew_def
      getActiveSubscriptionByStudent_seatAllocations_update
      renewSubscription_seatAllocations_update createPayment_seatAllocations_update
      Let_def split_beta split: option.splits sum.splits)

lemma renew_subscriptions_shape:
  assumes act: "getActiveSubscriptionByStudent st studentId = Some old"
    and accepted: "snd (post_api_subscriptions_renew dateOk st studentId req) = Inr new"
  shows "\<exists>h. (\<forall>s. sub_key (h s) = sub_key s)
     \<and> sub_key new = (next_subscription_id st, studentId, sub_seatId old, sub_shiftIds old,
                       ''active'', True)
     \<and> subscriptions (fst (post_api_subscriptions_renew dateOk st studentId req)) =
         map h (map (\<lambda>s. if sub_studentId s = studentId \<and> sub_status s = ''active''
                          then s\<lparr>sub_status := ''expired''\<rparr> else s) (subscriptions st) @ [new])"
proof -
  let ?sub = "\<lparr> sub_id = 0, sub_libraryId = ren_libraryId req, sub_studentId = studentId,
      sub_seatId = sub_seatId old, sub_shiftIds = sub_shiftIds old,
      sub_totalHours = sub_totalHours old,
      sub_planStartDate = ren_planStartDate req, sub_planEndDate = ren_planEndDate req,
      sub_subscriptionCost = ren_subscriptionCost req, sub_paidAmount = ren_paidAmount req,
      sub_discount = ren_discount req,
      sub_pendingAmount
        = max 0 (ren_subscriptionCost req - ren_paidAmount req - ren_discount req),
      sub_status = ''active'', sub_isActive = True \<rparr>"
  let ?expired = "map (\<lambda>s. if sub_studentId s = studentId \<and> sub_status s = ''active''
                          then s\<lparr>sub_status := ''expired''\<rparr> else s) (subscriptions st)"
  let ?st0 = "st\<lparr>subscriptions := ?expired\<rparr>"
  obtain st1 r1 where c1: "renewSubscription dateOk st studentId ?sub = (st1, r1)" by fastforce
  from accepted act c1 obtain subscription where r1: "r1 = Inr subscription"
    by (cases r1) (simp_all add: post_api_subscriptions_renew_def Let_def)
  from c1 r1 have ins: "createSubscription dateOk ?st0 ?sub = (st1, Inr subscription)"
    by (simp add: renewSubscription_def)
  have fst1: "fst (createSubscription dateOk ?st0 ?sub) = st1"
    and snd1: "snd (createSubscription dateOk ?st0 ?sub) = Inr subscription"
    using ins by simp_all
  obtain row where row: "subscriptions_row dateOk ?st0 ?sub = Some row"
    and created: "subscription = row\<lparr>sub_id := next_subscription_id st\<rparr>"
    and subs1: "subscriptions st1 = ?expired @ [subscription]"
  proof (cases rule: createSubscription_cases [of dateOk ?st0 ?sub])
    case rejected
    with snd1 show ?thesis by simp
  next
    case (inserted row)
    from inserted(2) snd1 have c: "subscription = row\<lparr>sub_id := next_subscription_id st\<rparr>"
      by simp
    have "subscriptions st1 = subscriptions (fst (createSubscription dateOk ?st0 ?sub))"
      by (simp only: fst1)
    also have "\<dots> = ?expired @ [row\<lparr>sub_id := next_subscription_id st\<rparr>]"
      using inserted(2) by simp
    finally have "subscriptions st1 = ?expired @ [subscription]" by (simp only: c)
    with inserted(1) c show ?thesis by (rule that)
  qed
  note f = subscriptions_row_fields [OF row]
  have status: "sub_status row = ''active''"
    using f(9) by (simp add: varchar_def)
  have key: "sub_key subscription = (next_subscription_id st, studentId, sub_seatId old,
      sub_shiftIds old, ''active'', True)"
    using f(1-4) status by (simp add: sub_key_def created)
  let ?p = "\<lparr> pay_id = 0, pay_libraryId = ren_libraryId req, pay_studentId = studentId,
      pay_subscriptionId = sub_id subscription, pay_amount = ren_paidAmount req,
      pay_paymentDate = ren_planStartDate req, pay_paymentMode = ''cash'',
      pay_status = ''completed'', pay_isActive = True \<rparr>"
  show ?thesis
  proof (cases "ren_paidAmount req > 0")
    case False
    with act c1 r1 accepted have new: "new = subscription"
      and fin: "fst (post_api_subscriptions_renew dateOk st studentId req) = st1"
      by (simp_all add: post_api_subscriptions_renew_def Let_def)
    show ?thesis
    proof (intro exI conjI)
      show "\<forall>s. sub_key ((\<lambda>s. s) s) = sub_key s" by simp
      show "sub_key new = (next_subscription_id st, studentId, sub_seatId old, sub_shiftIds old,
                       ''active'', True)" using key new by simp
      show "subscriptions (fst (post_api_subscriptions_renew dateOk st studentId req)) =
         map (\<lambda>s. s) (?expired @ [new])" using fin subs1 new by simp
    qed
  next
    case True
    obtain st2 r2 where c2: "createPayment dateOk st1 ?p = (st2, r2)" by fastforce
    have new: "new = subscription"
      and fin: "fst (post_api_subscriptions_renew dateOk st studentId req) = st2"
    proof -
      from accepted act c1 r1 True c2 obtain p where r2: "r2 = Inr p"
        by (cases r2) (simp_all add: post_api_subscriptions_renew_def Let_def)
      from accepted act c1 r1 True c2 r2 show "new = subscription"
        by (simp add: post_api_subscriptions_renew_def Let_def)
      from act c1 r1 True c2 r2
      show "fst (post_api_subscriptions_renew dateOk st studentId req) = st2"
        by (simp add: post_api_subscriptions_renew_def Let_def)
    qed
    from createPayment_keeps_keys [of dateOk st1 ?p] c2 obtain h where
      h: "\<forall>s. sub_key (h s) = sub_key s" and subs2: "subscriptions st2 = map h (subscriptions st1)"
      by auto
    show ?thesis
    proof (intro exI conjI)
      show "\<forall>s. sub_key (h s) = sub_key s" by (rule h)
      show "sub_key new = (next_subscription_id st, studentId, sub_seatId old, sub_shiftIds old,
                       ''active'', True)" using key new by simp
      show "subscriptions (fst (post_api_subscriptions_renew dateOk st studentId req)) =
         map h (?expired @ [new])" using fin subs2 subs1 new by simp
    qed
  qed
qed

text \<open>
  Claim C6 fails as stated.  S has exactly one active subscription.  A renewal whose
  end date is empty expires that row, the insert of the new row is rejected, the route
  answers 500, and S is left with no active subscription: the two statements of
  \<open>renewSubscription\<close> do not run in a transaction.
\<close>

theorem renewal_rejected_after_expiry:
  "filter (\<lambda>s. sub_studentId s = 1 \<and> sub_status s = ''active'' \<and> sub_isActive s)
     (subscriptions store_S) = [sub_S]
   \<and> snd (post_api_subscriptions_renew iso_date store_S 1 ren_no_end_date) = Inl Http500
   \<and> subscriptions (fst (post_api_subscriptions_renew iso_date store_S 1 ren_no_end_date))
       = [sub_S\<lparr>sub_status := ''expired''\<rparr>]
   \<and> filter (\<lambda>s. sub_studentId s = 1 \<and> sub_status s = ''active'')
        (subscriptions (fst (post_api_subscriptions_renew iso_date store_S 1 ren_no_end_date))) = []"
  by code_simp

text \<open>
  Claim C6, amended.  When a student has exactly one active subscription \<open>old\<close> and
  the renewal route answers 200 with the subscription \<open>new\<close>: \<open>new\<close> is active and has
  the seat and the shifts of \<open>old\<close>; exactly one row was inserted (the last one); the
  row of \<open>old\<close> now has status expired, and every other earlier row keeps its id and
  its status (unless it was an active row of the same student, which expires too);
  afterwards the new row is the student's only row with status active.  The outcome
  does not depend on the allocation table: no availability check is made.
\<close>

theorem renewal_replaces_active_subscription:
  assumes one: "filter (\<lambda>s. sub_studentId s = studentId \<and> sub_status s = ''active'' \<and> sub_isActive s)
                  (subscriptions st) = [old]"
    and accepted: "snd (post_api_subscriptions_renew dateOk st studentId req) = Inr new"
  shows "sub_status new = ''active'' \<and> sub_studentId new = studentId
    \<and> sub_seatId new = sub_seatId old \<and> sub_shiftIds new = sub_shiftIds old
    \<and> length (subscriptions (fst (post_api_subscriptions_renew dateOk st studentId req)))
        = Suc (length (subscriptions st))
    \<and> sub_key (last (subscriptions (fst (post_api_subscriptions_renew dateOk st studentId req))))
        = sub_key new
    \<and> (\<forall>i < length (subscriptions st).
          sub_id (subscriptions (fst (post_api_subscriptions_renew dateOk st studentId req)) ! i)
            = sub_id (subscriptions st ! i)
        \<and> sub_status (subscriptions (fst (post_api_subscriptions_renew dateOk st studentId req)) ! i)
            = (if sub_studentId (subscriptions st ! i) = studentId
                  \<and> sub_status (subscriptions st ! i) = ''active''
               then ''expired'' else sub_status (subscriptions st ! i)))
    \<and> (\<forall>i < length (subscriptions st). subscriptions st ! i = old \<longrightarrow>
          sub_status (subscriptions (fst (post_api_subscriptions_renew dateOk st studentId req)) ! i)
            = ''expired'')
    \<and> filter (\<lambda>s. sub_studentId s = studentId \<and> sub_status s = ''active'')
         (subscriptions (fst (post_api_subscriptions_renew dateOk st studentId req)))
        = [last (subscriptions (fst (post_api_subscriptions_renew dateOk st studentId req)))]
    \<and> (\<forall>allocations.
          post_api_subscriptions_renew dateOk (st\<lparr>seatAllocations := allocations\<rparr>) studentId req
            = (fst (post_api_subscriptions_renew dateOk st studentId req)
                 \<lparr>seatAllocations := allocations\<rparr>,
               snd (post_api_subscriptions_renew dateOk st studentId req)))"
proof -
  let ?R = "post_api_subscriptions_renew dateOk st studentId req"
  let ?P = "\<lambda>s. sub_studentId s = studentId \<and> sub_status s = ''active''"
  let ?e = "\<lambda>s. if ?P s then s\<lparr>sub_status := ''expired''\<rparr> else s"
  from one have act: "getActiveSubscriptionByStudent st studentId = Some old"
    by (simp add: getActiveSubscriptionByStudent_def)
  have "old \<in> set (filter (\<lambda>s. sub_studentId s = studentId \<and> sub_status s = ''active''
                                 \<and> sub_isActive s) (subscriptions st))"
    using one by simp
  then have old: "?P old" by simp
  from renew_subscriptions_shape [OF act accepted] obtain h where
    h: "\<forall>s. sub_key (h s) = sub_key s"
    and key: "sub_key new = (next_subscription_id st, studentId, sub_seatId old, sub_shiftIds old,
                       ''active'', True)"
    and subs: "subscriptions (fst ?R) = map h (map ?e (subscriptions st) @ [new])"
    by blast
  have hf: "sub_id (h s) = sub_id s" "sub_studentId (h s) = sub_studentId s"
    "sub_status (h s) = sub_status s" for s
    using h [rule_format, of s] by (simp_all add: sub_key_def)
  have newf: "sub_status new = ''active''" "sub_studentId new = studentId"
    "sub_seatId new = sub_seatId old" "sub_shiftIds new = sub_shiftIds old"
    using key by (simp_all add: sub_key_def)
  have len: "length (subscriptions (fst ?R)) = Suc (length (subscriptions st))"
    by (simp add: subs)
  have lst: "last (subscriptions (fst ?R)) = h new"
    by (simp add: subs)
  have rows: "subscriptions (fst ?R) ! i = h (?e (subscriptions st ! i))"
    if "i < length (subscriptions st)" for i
    using that by (simp add: subs nth_append)
  have none: "filter ?P (map ?e xs) = []" for xs :: "subscription list"
    by (induction xs) simp_all
  have "filter ?P (subscriptions (fst ?R)) = map h (filter ?P (map ?e (subscriptions st) @ [new]))"
    unfolding subs by (simp only: filter_map comp_def hf)
  also have "\<dots> = [h new]" using none newf by simp
  finally have flt: "filter ?P (subscriptions (fst ?R)) = [last (subscriptions (fst ?R))]"
    by (simp add: lst)
  show ?thesis
  proof (intro conjI allI impI)
    show "sub_status new = ''active''" "sub_studentId new = studentId"
      "sub_seatId new = sub_seatId old" "sub_shiftIds new = sub_shiftIds old"
      by (rule newf)+
    show "length (subscriptions (fst ?R)) = Suc (length (subscriptions st))" by (rule len)
    show "sub_key (last (subscriptions (fst ?R))) = sub_key new" using h by (simp add: lst)
    show "sub_id (subscriptions (fst ?R) ! i) = sub_id (subscriptions st ! i)"
      if "i < length (subscriptions st)" for i
      using that by (simp add: rows hf)
    show "sub_status (subscriptions (fst ?R) ! i)
            = (if sub_studentId (subscriptions st ! i) = studentId
                  \<and> sub_status (subscriptions st ! i) = ''active''
               then ''expired'' else sub_status (subscriptions st ! i))"
      if "i < length (subscriptions st)" for i
      using that by (simp add: rows hf)
    show "sub_status (subscriptions (fst ?R) ! i) = ''expired''"
      if "i < length (subscriptions st)" "subscriptions st ! i = old" for i
      using that old by (simp add: rows hf)
    show "filter ?P (subscriptions (fst ?R)) = [last (subscriptions (fst ?R))]" by (rule flt)
    show "post_api_subscriptions_renew dateOk (st\<lparr>seatAllocations := allocations\<rparr>) studentId req
            = (fst ?R\<lparr>seatAllocations := allocations\<rparr>, snd ?R)" for allocations
      by (rule renew_ignores_allocations)
  qed
qed

theorem renewal_replaces_active_subscription_witness:
  "filter (\<lambda>s. sub_studentId s = 1 \<and> sub_status s = ''active'' \<and> sub_isActive s)
     (subscriptions store_S) = [sub_S]
   \<and> snd (post_api_subscriptions_renew iso_date store_S 1 ren_S) = Inr sub_S_renewed
   \<and> length (subscriptions (fst (post_api_subscriptions_renew iso_date store_S 1 ren_S)))
       = Suc (length (subscriptions store_S))
   \<and> filter (\<lambda>s. sub_studentId s = 1 \<and> sub_status s = ''active'')
        (subscriptions (fst (post_api_subscriptions_renew iso_date store_S 1 ren_S)))
       = [last (subscriptions (fst (post_api_subscriptions_renew iso_date store_S 1 ren_S)))]
   \<and> map sub_status (subscriptions (fst (post_api_subscriptions_renew iso_date store_S 1 ren_S)))
       = [''expired'', ''active'']"
proof -
  have a: "filter (\<lambda>s. sub_studentId s = 1 \<and> sub_status s = ''active'' \<and> sub_isActive s)
     (subscriptions store_S) = [sub_S]" by code_simp
  have a': "snd (post_api_subscriptions_renew iso_date store_S 1 ren_S) = Inr sub_S_renewed"
    by code_simp
  note t = renewal_replaces_active_subscription [OF a a']
  from t have b: "length (subscriptions (fst (post_api_subscriptions_renew iso_date store_S 1 ren_S)))
       = Suc (length (subscriptions store_S))"
    by (elim conjE)
  from t have c: "filter (\<lambda>s. sub_studentId s = 1 \<and> sub_status s = ''active'')
        (subscriptions (fst (post_api_subscriptions_renew iso_date store_S 1 ren_S)))
       = [last (subscriptions (fst (post_api_subscriptions_renew iso_date store_S 1 ren_S)))]"
    by (elim conjE)
  have d: "map sub_status (subscriptions (fst (post_api_subscriptions_renew iso_date store_S 1 ren_S)))
       = [''expired'', ''active'']" by code_simp
  from a a' b c d show ?thesis by (intro conjI)
qed

subsection \<open>Cancellation and terminal subscriptions\<close>

lemma keeps_terminal_refl: "keeps_terminal st st"
  by (simp add: keeps_terminal_def)

lemma keeps_terminal_trans:
  "keeps_terminal st1 st2 \<Longrightarrow> keeps_terminal st2 st3 \<Longrightarrow> keeps_terminal st1 st3"
  by (auto simp: keeps_terminal_def)

lemma keeps_terminal_same:
  "subscriptions st' = subscriptions st \<Longrightarrow> keeps_terminal st st'"
  by (simp add: keeps_terminal_def)

lemma createPayment_keeps_terminal: "keeps_terminal st (fst (createPayment dateOk st p))"
proof -
  from createPayment_keeps_keys [of dateOk st p] obtain h where
    h: "\<forall>s. sub_key (h s) = sub_key s"
    and subs: "subscriptions (fst (createPayment dateOk st p)) = map h (subscriptions st)"
    by blast
  have "sub_status (h s) = sub_status s" for s
    using h [rule_format, of s] by (simp add: sub_key_def)
  then show ?thesis by (simp add: keeps_terminal_def subs)
qed

lemma createSubscription_keeps_terminal:
  "keeps_terminal st (fst (createSubscription dateOk st data))"
  by (cases rule: createSubscription_cases [of dateOk st data])
    (simp_all add: keeps_terminal_def nth_append)

lemma cancelSubscription_keeps_terminal: "keeps_terminal st (cancelSubscription st subId)"
  by (simp add: keeps_terminal_def cancelSubscription_def)

lemma expire_keeps_terminal:
  "keeps_terminal st
     (st\<lparr>subscriptions :=
           map (\<lambda>s. if sub_studentId s = studentId \<and> sub_status s = ''active''
                     then s\<lparr>sub_status := ''expired''\<rparr> else s) (subscriptions st)\<rparr>)"
  by (simp add: keeps_terminal_def)

lemma renewSubscription_keeps_terminal:
  "keeps_terminal st (fst (renewSubscription dateOk st studentId data))"
  unfolding renewSubscription_def
  by (rule keeps_terminal_trans [OF expire_keeps_terminal createSubscription_keeps_terminal])

lemma post_api_students_keeps_terminal:
  "keeps_terminal st (fst (post_api_students dateOk st req))"
proof (rule post_api_students_preserves [where Q = "keeps_terminal st"])
  show "keeps_terminal st st" by (rule keeps_terminal_refl)
  show "keeps_terminal st (fst (createStudent dateOk st' data))"
    if "keeps_terminal st st'" for st' data
    by (rule keeps_terminal_trans [OF that]) (simp add: keeps_terminal_same)
  show "keeps_terminal st (fst (createSubscription dateOk st' data))"
    if "keeps_terminal st st'" for st' data
    by (rule keeps_terminal_trans [OF that createSubscription_keeps_terminal])
  show "keeps_terminal st (fst (createPayment dateOk st' p))"
    if "keeps_terminal st st'" for st' p
    by (rule keeps_terminal_trans [OF that createPayment_keeps_terminal])
qed

lemma post_api_subscriptions_renew_keeps_terminal:
  "keeps_terminal st (fst (post_api_subscriptions_renew dateOk st studentId req))"
proof (rule post_api_subscriptions_renew_preserves [where Q = "keeps_terminal st"])
  show "keeps_terminal st st" by (rule keeps_terminal_refl)
  show "keeps_terminal st (fst (renewSubscription dateOk st studentId data))" for data
    by (rule renewSubscription_keeps_terminal)
  show "keeps_terminal st (fst (createPayment dateOk st' p))"
    if "keeps_terminal st st'" for st' p
    by (rule keeps_terminal_trans [OF that createPayment_keeps_terminal])
qed

lemma apply_op_keeps_terminal: "keeps_terminal st (apply_op dateOk st op)"
proof (cases op)
  case (AddLibrary x)
  then show ?thesis by (simp add: keeps_terminal_same)
next
  case (AddShift x)
  then show ?thesis by (simp add: keeps_terminal_same)
next
  case (AddSeat x)
  then show ?thesis by (simp add: keeps_terminal_same)
next
  case (AddAllocation x)
  then show ?thesis by (simp add: keeps_terminal_same)
next
  case (Register x)
  then show ?thesis by (simp add: post_api_students_keeps_terminal)
next
  case (AddPayment x)
  then show ?thesis by (simp add: post_api_payments_fst createPayment_keeps_terminal)
next
  case (Renew x y)
  then show ?thesis by (simp add: post_api_subscriptions_renew_keeps_terminal)
next
  case (Cancel x)
  then show ?thesis
    by (simp add: patch_api_subscriptions_cancel_def cancelSubscription_keeps_terminal)
qed

lemma foldl_apply_op_keeps_terminal: "keeps_terminal st (foldl (apply_op dateOk) st ops)"
proof (induction ops arbitrary: st)
  case Nil
  show ?case by (simp add: keeps_terminal_refl)
next
  case (Cons op ops)
  show ?case
    using keeps_terminal_trans [OF apply_op_keeps_terminal Cons.IH] by simp
qed

text \<open>
  Claim C7 fails as stated: after S has registered and renewed, the first subscription
  is expired; cancelling it answers 200 and rewrites its status to cancelled.
\<close>

theorem cancel_expired_subscription_succeeds:
  "map sub_status (subscriptions store_renewed) = [''expired'', ''active'']
   \<and> snd (patch_api_subscriptions_cancel store_renewed 1) = Inr ()
   \<and> map sub_status (subscriptions (fst (patch_api_subscriptions_cancel store_renewed 1)))
       = [''cancelled'', ''active'']"
  by code_simp

text \<open>
  Claim C7, amended.  For a subscription row whose status is cancelled, closed, renewed
  or expired: the cancel route answers 200 and leaves the row with status cancelled,
  every other column unchanged; the renewal route of a student without an active
  subscription answers 404 and leaves the store unchanged; and after any sequence of
  ledger operations the row is still present and its status is not active.
\<close>

theorem terminal_subscription_operations:
  assumes row: "i < length (subscriptions st)"
    and terminal: "sub_status (subscriptions st ! i) \<in> {''cancelled'', ''closed'', ''renewed'', ''expired''}"
  shows "snd (patch_api_subscriptions_cancel st (sub_id (subscriptions st ! i))) = Inr ()
       \<and> subscriptions (fst (patch_api_subscriptions_cancel st (sub_id (subscriptions st ! i)))) ! i
           = (subscriptions st ! i)\<lparr>sub_status := ''cancelled''\<rparr>
       \<and> (getActiveSubscriptionByStudent st (sub_studentId (subscriptions st ! i)) = None \<longrightarrow>
            post_api_subscriptions_renew dateOk st (sub_studentId (subscriptions st ! i)) req
              = (st, Inl Http404))
       \<and> i < length (subscriptions (foldl (apply_op dateOk) st ops))
       \<and> sub_status (subscriptions (foldl (apply_op dateOk) st ops) ! i) \<noteq> ''active''"
proof -
  from terminal have na: "sub_status (subscriptions st ! i) \<noteq> ''active''" by auto
  have kt: "keeps_terminal st (foldl (apply_op dateOk) st ops)"
    by (rule foldl_apply_op_keeps_terminal)
  from kt row have "i < length (subscriptions (foldl (apply_op dateOk) st ops))"
    by (simp add: keeps_terminal_def)
  moreover from kt row na
  have "sub_status (subscriptions (foldl (apply_op dateOk) st ops) ! i) \<noteq> ''active''"
    by (simp add: keeps_terminal_def)
  ultimately show ?thesis using row
    by (simp add: patch_api_subscriptions_cancel_def cancelSubscription_def
        post_api_subscriptions_renew_def)
qed

theorem terminal_subscription_operations_witness:
  "(0::nat) < length (subscriptions store_cancelled)
   \<and> sub_status (subscriptions store_cancelled ! 0) = ''cancelled''
   \<and> getActiveSubscriptionByStudent store_cancelled 1 = None
   \<and> post_api_subscriptions_renew iso_date store_cancelled 1 ren_S = (store_cancelled, Inl Http404)
   \<and> sub_status (subscriptions (foldl (apply_op iso_date) store_cancelled
         [Renew 1 ren_S, AddPayment pay_S, Cancel 1]) ! 0) \<noteq> ''active''"
proof -
  have a: "(0::nat) < length (subscriptions store_cancelled)" by code_simp
  have b: "sub_status (subscriptions store_cancelled ! 0) = ''cancelled''" by code_simp
  then have b': "sub_status (subscriptions store_cancelled ! 0)
      \<in> {''cancelled'', ''closed'', ''renewed'', ''expired''}" by simp
  have c: "getActiveSubscriptionByStudent store_cancelled 1 = None" by code_simp
  have d: "sub_studentId (subscriptions store_cancelled ! 0) = 1" by code_simp
  note t = terminal_subscription_operations
    [OF a b', of iso_date ren_S "[Renew 1 ren_S, AddPayment pay_S, Cancel 1]"]
  from t have "getActiveSubscriptionByStudent store_cancelled
        (sub_studentId (subscriptions store_cancelled ! 0)) = None \<longrightarrow>
      post_api_subscriptions_renew iso_date store_cancelled
        (sub_studentId (subscriptions store_cancelled ! 0)) ren_S = (store_cancelled, Inl Http404)"
    by (elim conjE)
  with c have r: "post_api_subscriptions_renew iso_date store_cancelled 1 ren_S
      = (store_cancelled, Inl Http404)"
    unfolding d by (rule mp [rotated])
  from t have e: "sub_status (subscriptions (foldl (apply_op iso_date) store_cancelled
         [Renew 1 ren_S, AddPayment pay_S, Cancel 1]) ! 0) \<noteq> ''active''"
    by (elim conjE)
  from a b c r e show ?thesis by (intro conjI)
qed

subsection \<open>Seat availability\<close>

text \<open>
  Claim C9 fails as stated: an active seat whose status column holds occupied, with no
  allocation at all, is returned by the resolver of the specification and not by
  \<open>getVacantSeatsForShifts\<close>.
\<close>

theorem vacant_seats_excludes_marked_seat:
  "map (\<lambda>s. (seat_seatNumber s, seat_status s, seat_isActive s)) (seats store_marked)
     = [(2, ''occupied'', True)]
   \<and> seatAllocations store_marked = []
   \<and> getVacantSeatsForShifts store_marked 1 [1] = []
   \<and> map seat_seatNumber (spec_vacant_seats store_marked 1 [1]) = [2]"
  by code_simp

text \<open>
  Claim C9, amended.  For a non-empty list of shift ids, \<open>getVacantSeatsForShifts\<close>
  returns, in the order of seat numbers, exactly the active seats of the library whose
  status is vacant and that have no active allocation with status occupied in any of
  the requested shifts; a seat whose status is blocked is never returned.
\<close>

theorem vacant_seats_characterisation:
  assumes "shiftIds \<noteq> []"
  shows "getVacantSeatsForShifts st libraryId shiftIds =
           filter (\<lambda>s. seat_status s = ''vacant'' \<and>
                       (\<forall>shiftId \<in> set shiftIds.
                          \<not> (\<exists>a \<in> set (seatAllocations st).
                                alloc_seatId a = seat_id s \<and> alloc_shiftId a = shiftId
                                \<and> alloc_status a = ''occupied'' \<and> alloc_isActive a)))
                  (getSeatsByLibrary st libraryId)
       \<and> set (getVacantSeatsForShifts st libraryId shiftIds) =
           {s \<in> set (seats st). seat_libraryId s = libraryId \<and> seat_isActive s
              \<and> seat_status s = ''vacant''
              \<and> (\<forall>shiftId \<in> set shiftIds.
                    \<not> (\<exists>a \<in> set (seatAllocations st).
                          alloc_seatId a = seat_id s \<and> alloc_shiftId a = shiftId
                          \<and> alloc_status a = ''occupied'' \<and> alloc_isActive a))}
       \<and> (\<forall>s \<in> set (getVacantSeatsForShifts st libraryId shiftIds). seat_status s \<noteq> ''blocked'')"
proof -
  have occ: "seat_id s \<notin> set (map alloc_seatId
                 (filter (\<lambda>a. alloc_shiftId a \<in> set shiftIds \<and> alloc_status a = ''occupied''
                              \<and> alloc_isActive a) (seatAllocations st)))
        \<longleftrightarrow> (\<forall>shiftId \<in> set shiftIds.
                    \<not> (\<exists>a \<in> set (seatAllocations st).
                          alloc_seatId a = seat_id s \<and> alloc_shiftId a = shiftId
                          \<and> alloc_status a = ''occupied'' \<and> alloc_isActive a))"
    for s :: seat
    by (auto simp: image_iff)
  have l: "getVacantSeatsForShifts st libraryId shiftIds =
           filter (\<lambda>s. seat_status s = ''vacant'' \<and>
                       (\<forall>shiftId \<in> set shiftIds.
                          \<not> (\<exists>a \<in> set (seatAllocations st).
                                alloc_seatId a = seat_id s \<and> alloc_shiftId a = shiftId
                                \<and> alloc_status a = ''occupied'' \<and> alloc_isActive a)))
                  (getSeatsByLibrary st libraryId)"
    unfolding getVacantSeatsForShifts_def Let_def
    by (rule filter_cong [OF refl]) (use occ in blast)
  have s: "set (getSeatsByLibrary st libraryId) =
      {s \<in> set (seats st). seat_libraryId s = libraryId \<and> seat_isActive s}"
    by (auto simp: getSeatsByLibrary_def)
  show ?thesis
  proof (intro conjI)
    show "getVacantSeatsForShifts st libraryId shiftIds =
           filter (\<lambda>s. seat_status s = ''vacant'' \<and>
                       (\<forall>shiftId \<in> set shiftIds.
                          \<not> (\<exists>a \<in> set (seatAllocations st).
                                alloc_seatId a = seat_id s \<and> alloc_shiftId a = shiftId
                                \<and> alloc_status a = ''occupied'' \<and> alloc_isActive a)))
                  (getSeatsByLibrary st libraryId)" by (rule l)
    show "set (getVacantSeatsForShifts st libraryId shiftIds) =
           {s \<in> set (seats st). seat_libraryId s = libraryId \<and> seat_isActive s
              \<and> seat_status s = ''vacant''
              \<and> (\<forall>shiftId \<in> set shiftIds.
                    \<not> (\<exists>a \<in> set (seatAllocations st).
                          alloc_seatId a = seat_id s \<and> alloc_shiftId a = shiftId
                          \<and> alloc_status a = ''occupied'' \<and> alloc_isActive a))}"
      unfolding l using s by auto
    show "\<forall>s \<in> set (getVacantSeatsForShifts st libraryId shiftIds). seat_status s \<noteq> ''blocked''"
      unfolding l by simp
  qed
qed

theorem vacant_seats_characterisation_witness:
  "[1::nat] \<noteq> []
   \<and> map seat_seatNumber (getSeatsByLibrary store_two_seats 1) = [1, 2]
   \<and> map seat_seatNumber (getVacantSeatsForShifts store_two_seats 1 [1]) = [2]
   \<and> getVacantSeatsForShifts store_two_seats 1 [1] =
       filter (\<lambda>s. seat_status s = ''vacant'' \<and>
                   (\<forall>shiftId \<in> set [1].
                      \<not> (\<exists>a \<in> set (seatAllocations store_two_seats).
                            alloc_seatId a = seat_id s \<and> alloc_shiftId a = shiftId
                            \<and> alloc_status a = ''occupied'' \<and> alloc_isActive a)))
              (getSeatsByLibrary store_two_seats 1)"
proof -
  have a: "[1::nat] \<noteq> []" by simp
  have b: "map seat_seatNumber (getSeatsByLibrary store_two_seats 1) = [1, 2]" by code_simp
  have c: "map seat_seatNumber (getVacantSeatsForShifts store_two_seats 1 [1]) = [2]"
    by code_simp
  from vacant_seats_characterisation [OF a, of store_two_seats 1]
  have d: "getVacantSeatsForShifts store_two_seats 1 [1] =
       filter (\<lambda>s. seat_status s = ''vacant'' \<and>
                   (\<forall>shiftId \<in> set [1].
                      \<not> (\<exists>a \<in> set (seatAllocations store_two_seats).
                            alloc_seatId a = seat_id s \<and> alloc_shiftId a = shiftId
                            \<and> alloc_status a = ''occupied'' \<and> alloc_isActive a)))
              (getSeatsByLibrary store_two_seats 1)"
    by (elim conjE)
  from a b c d show ?thesis by (intro conjI)
qed

subsection \<open>Registration\<close>

text \<open>
  Claim C1.  Registering S in library 1 with cost 1000, paid 400 and discount 0: the
  handler inserts the subscription with paid 400 and pending 600, and the payment it
  records next adds the 400 once more.  The stored row ends with \<open>paidAmount = 800\<close> and
  \<open>pendingAmount = 200\<close>, where the claim has 400 and 600.
\<close>

theorem registration_counts_paid_amount_twice:
  "map (\<lambda>s. (sub_subscriptionCost s, sub_paidAmount s, sub_discount s, sub_pendingAmount s))
     (subscriptions (fst (post_api_students iso_date (run_ops iso_date library_L1) reg_S)))
     = [(1000, 800, 0, 200)]
   \<and> map pay_amount (payments (fst (post_api_students iso_date (run_ops iso_date library_L1) reg_S)))
       = [400]"
  by code_simp

text \<open>
  Claim C4.  Seat 1 holds an active allocation with status occupied for the Morning
  shift, and the resolver offers no seat for it.  The registration of T for seat 1 in the
  Morning is answered 200 all the same, and a student, a subscription and a payment row
  are written: the handler makes no availability check and has no conflict answer.
\<close>

theorem registration_on_occupied_seat_succeeds:
  "map (\<lambda>a. (alloc_seatId a, alloc_shiftId a, alloc_status a, alloc_isActive a))
       (seatAllocations store_taken) = [(1, 1, ''occupied'', True)]
   \<and> getVacantSeatsForShifts store_taken 1 [1] = []
   \<and> (case snd (post_api_students iso_date store_taken reg_T) of
         Inl e \<Rightarrow> False
       | Inr (student, subscription) \<Rightarrow>
           stu_studentName student = ''T'' \<and> sub_seatId subscription = 1
           \<and> sub_shiftIds subscription = [1] \<and> sub_status subscription = ''active'')
   \<and> map stu_studentName (students (fst (post_api_students iso_date store_taken reg_T)))
       = [''S'', ''T'']
   \<and> map (\<lambda>s. (sub_studentId s, sub_seatId s, sub_shiftIds s, sub_status s))
         (subscriptions (fst (post_api_students iso_date store_taken reg_T)))
       = [(1, 1, [1], ''active''), (2, 1, [1], ''active'')]
   \<and> map pay_studentId (payments (fst (post_api_students iso_date store_taken reg_T))) = [1, 2]"
  by code_simp

text \<open>
  Claim C5.  The registration of S for the Morning shift writes the student row, the
  active subscription row and the payment row dated at plan start, and no allocation row:
  the handler never calls \<open>createSeatAllocation\<close>.
\<close>

theorem registration_creates_no_allocation:
  "seatAllocations (fst (post_api_students iso_date (run_ops iso_date library_L1) reg_S)) = []
   \<and> map stu_studentName
        (students (fst (post_api_students iso_date (run_ops iso_date library_L1) reg_S))) = [''S'']
   \<and> map (\<lambda>s. (sub_seatId s, sub_shiftIds s, sub_status s))
        (subscriptions (fst (post_api_students iso_date (run_ops iso_date library_L1) reg_S)))
       = [(1, [1], ''active'')]
   \<and> map pay_paymentDate
        (payments (fst (post_api_students iso_date (run_ops iso_date library_L1) reg_S)))
       = [''2024-01-01'']"
  by code_simp

subsection \<open>Cancellation and the seat\<close>

text \<open>
  Claim C8.  S holds an active subscription for seat 1 in the Morning and the matching
  allocation row.  Cancelling the subscription sets its status to cancelled and leaves
  the allocation active and occupied, so the seat stays unavailable for the Morning.
\<close>

theorem cancel_keeps_allocations:
  "map (\<lambda>s. (sub_id s, sub_studentId s, sub_seatId s, sub_shiftIds s, sub_status s))
       (subscriptions store_taken) = [(1, 1, 1, [1], ''active'')]
   \<and> snd (patch_api_subscriptions_cancel store_taken 1) = Inr ()
   \<and> map sub_status (subscriptions (fst (patch_api_subscriptions_cancel store_taken 1)))
       = [''cancelled'']
   \<and> map (\<lambda>a. (alloc_seatId a, alloc_shiftId a, alloc_studentId a, alloc_status a,
               alloc_isActive a))
         (seatAllocations (fst (patch_api_subscriptions_cancel store_taken 1)))
       = [(1, 1, Some 1, ''occupied'', True)]
   \<and> getVacantSeatsForShifts (fst (patch_api_subscriptions_cancel store_taken 1)) 1 [1] = []"
  by code_simp

subsection \<open>Student codes\<close>

text \<open>
  Claim C10.  The only student of the store belongs to library 1 and has id 1.  For
  library 2, which has no student, \<open>generateStudentId\<close> returns the serial 2 (the maximum
  over all students plus one), where the claim has 1.
\<close>

theorem generateStudentId_ignores_library:
  "map (\<lambda>s. (stu_id s, stu_libraryId s)) (students store_S) = [(1, 1)]
   \<and> generateStudentId store_S 2 = ''STD000002''
   \<and> generateStudentId store_S 1 = ''STD000002''"
  by code_simp

end
